theory Spec2Isabelle
  imports Main "HOL-Library.List_Lexorder"
begin

section \<open>Python values\<close>

text \<open>
  A Python \<^verbatim>\<open>str\<close> is a sequence of Unicode code points; a code point is a natural
  number. \<open>ascii\<close> reads an ASCII literal as such a sequence.
\<close>

type_synonym py_str = "nat list"

definition ascii :: "string \<Rightarrow> py_str" where
  "ascii s = map of_char s"

text \<open>
  The exceptions that occur in the module. \<open>ExternalError\<close> stands for any exception
  raised inside a dependency (the vector-store client, the PDF loader, the embedding
  model, the LLM client); its number only tells two of them apart.
  \<open>UnsupportedField\<close> marks a replacement field whose form is outside the modelled
  fragment of format strings (see \<open>py_format\<close>).
\<close>

datatype py_error =
    AttributeError
  | KeyError py_str
  | ValueError
  | UnsupportedField py_str
  | ExternalError nat

text \<open>
  \<^verbatim>\<open>str.isspace\<close> of one code point, which is also what \<^verbatim>\<open>\s\<close> matches in a
  \<^verbatim>\<open>str\<close> pattern: the ASCII white space 9-13 and 28-32, and the Unicode white space
  U+0085, U+00A0, U+1680, U+2000-U+200A, U+2028, U+2029, U+202F, U+205F, U+3000.
\<close>

definition py_isspace :: "nat \<Rightarrow> bool" where
  "py_isspace c =
     ((9 \<le> c \<and> c \<le> 13) \<or> (28 \<le> c \<and> c \<le> 32) \<or> c = 133 \<or> c = 160 \<or> c = 5760
      \<or> (8192 \<le> c \<and> c \<le> 8202) \<or> c = 8232 \<or> c = 8233 \<or> c = 8239 \<or> c = 8287
      \<or> c = 12288)"

text \<open>
  \<^verbatim>\<open>re.sub(r'\s+', ' ', text)\<close>: scanning from the left, every match of \<^verbatim>\<open>\s+\<close> (greedy,
  so a whole run of white space) is replaced by one space, U+0020.
\<close>

function re_sub_ws :: "py_str \<Rightarrow> py_str" where
  "re_sub_ws [] = []"
| "re_sub_ws (c # cs) =
     (if py_isspace c then 32 # re_sub_ws (dropWhile py_isspace cs)
      else c # re_sub_ws cs)"
  by pat_completeness auto
termination
  by (relation "measure length") (auto simp: length_dropWhile_le less_Suc_eq_le)

text \<open>\<^verbatim>\<open>text.strip()\<close>: white space removed from both ends.\<close>

definition py_strip :: "py_str \<Rightarrow> py_str" where
  "py_strip s = dropWhile py_isspace (rev (dropWhile py_isspace (rev s)))"

text \<open>
  \<^verbatim>\<open>
  def clean_text(text):
      text = re.sub(r'\s+', ' ', text)
      return text.strip()
  \<close>
\<close>

definition clean_text :: "py_str \<Rightarrow> py_str" where
  "clean_text text = (let text = re_sub_ws text in py_strip text)"

section \<open>The world outside the module\<close>

text \<open>
  The module calls a hosted vector store, a PDF loader, a text splitter, an embedding
  model and an LLM client. None of them is code of the repository, so they are the
  environment of the model: a record of what the services hold and of how they answer,
  and one definition per call. Every call may raise; what it raises is the environment's
  choice (\<open>fault\<close>), and every call is logged (\<open>calls\<close>) with its arguments.
\<close>

record document =
  page_content :: py_str
  metadata :: "(py_str \<times> py_str) list"

record index_info =
  index_name :: py_str
  index_dimension :: nat
  index_metric :: py_str
  index_cloud :: py_str
  index_region :: py_str

datatype ext_call =
    PineconeInit "py_str option"
  | FastEmbedInit
  | ListIndexes
  | CreateIndex index_info
  | DescribeIndex py_str
  | IndexHandle py_str
  | VectorStoreInit py_str
  | PdfLoaderInit py_str
  | PdfLoad py_str
  | SplitterInit nat nat
  | SplitDocuments nat nat "document list"
  | AddDocuments py_str "document list"
  | LLMInit py_str "py_str option"
  | AsRetriever py_str nat
  | ChainInit
  | SimilaritySearch py_str nat py_str
  | LLMInvoke py_str

record world =
  environ :: "py_str \<Rightarrow> py_str option"
  indexes :: "index_info list"
  ready :: "nat \<Rightarrow> bool"
  polls :: nat
  slept :: nat
  stored :: "(py_str \<times> document list) list"
  files :: "py_str \<Rightarrow> document list"
  splitter :: "nat \<Rightarrow> nat \<Rightarrow> document list \<Rightarrow> document list"
  score :: "py_str \<Rightarrow> document \<Rightarrow> int"
  llm_answer :: "py_str \<Rightarrow> py_str"
  fault :: "nat \<Rightarrow> ext_call \<Rightarrow> py_error option"
  calls :: "ext_call list"

text \<open>
  The fields: \<open>environ\<close> is the process environment after \<^verbatim>\<open>load_dotenv()\<close>;
  \<open>indexes\<close> the indexes the provider holds; \<open>ready n\<close> the readiness that the
  \<open>n\<close>-th \<^verbatim>\<open>describe_index\<close> call of the run reports, \<open>polls\<close> counting those calls;
  \<open>slept\<close> the seconds spent in \<^verbatim>\<open>time.sleep\<close>; \<open>stored\<close> the upserts so far (index
  name and chunks), which are what the indexes hold; \<open>files path\<close> the pages the PDF
  at \<open>path\<close> loads to; \<open>splitter size overlap\<close> what a recursive character splitter
  with these settings returns; \<open>score question chunk\<close> the similarity of the chunk's
  embedding to the question's, of which only the order matters (a higher score is
  nearer); \<open>llm_answer prompt\<close> the text the hosted LLM generates for a prompt;
  \<open>fault n c\<close> the exception, if any, that the \<open>n\<close>-th external call of the run
  raises when that call is \<open>c\<close>; \<open>calls\<close> the external calls made so far, oldest first.
\<close>

text \<open>
  A piece of the program takes the world and, when it returns at all, returns a value or
  raises, and leaves a new world: \<open>None\<close> is a run that never returns.
\<close>

type_synonym 'a io = "world \<Rightarrow> ((py_error + 'a) \<times> world) option"

definition return_io :: "'a \<Rightarrow> 'a io" where
  "return_io a w = Some (Inr a, w)"

text \<open>Sequencing: an exception of the first part ends the whole, nothing catches it.\<close>

definition bind_io :: "'a io \<Rightarrow> ('a \<Rightarrow> 'b io) \<Rightarrow> 'b io" where
  "bind_io m f w =
     (case m w of
        None \<Rightarrow> None
      | Some (Inl e, w1) \<Rightarrow> Some (Inl e, w1)
      | Some (Inr a, w1) \<Rightarrow> f a w1)"

text \<open>
  One external call \<open>c\<close>: it is logged, it raises when the environment says so, and
  otherwise it has the effect \<open>act\<close> and returns a value.
\<close>

definition ext :: "ext_call \<Rightarrow> (world \<Rightarrow> 'a \<times> world) \<Rightarrow> 'a io" where
  "ext c act w =
     (let w1 = w\<lparr>calls := calls w @ [c]\<rparr> in
      case fault w (length (calls w)) c of
        Some e \<Rightarrow> Some (Inl e, w1)
      | None \<Rightarrow> (case act w1 of (a, w2) \<Rightarrow> Some (Inr a, w2)))"

text \<open>\<^verbatim>\<open>os.getenv(key)\<close> reads the environment and never raises.\<close>

definition os_getenv :: "py_str \<Rightarrow> py_str option io" where
  "os_getenv key w = Some (Inr (environ w key), w)"

subsection \<open>The handles the libraries return\<close>

record pinecone_client =
  api_key :: "py_str option"

datatype embeddings = FastEmbedEmbeddings

datatype pinecone_index = Index py_str

record vector_store =
  store_index :: pinecone_index
  store_embedding :: embeddings

record llm =
  llm_model :: py_str
  google_api_key :: "py_str option"

record retriever =
  retriever_index :: py_str
  search_k :: nat

record prompt_template =
  template :: py_str
  input_variables :: "py_str list"

record qa_chain =
  chain_llm :: llm
  chain_retriever :: retriever
  chain_type :: py_str
  return_source_documents :: bool
  chain_prompt :: prompt_template

record response =
  result :: py_str
  source_documents :: "document list option"

subsection \<open>The calls\<close>

text \<open>
  Modelled from the spec: the client of the hosted vector store (``Hosted vector-store
  API: index create/describe/query/upsert by name''; an index is ``created once per
  named index, reused thereafter''). Creating an index adds it to the provider's list;
  describing it reports the readiness of the moment; an upsert appends the chunks under
  the index's name. Constructing a handle changes nothing.
\<close>

definition Pinecone :: "py_str option \<Rightarrow> pinecone_client io" where
  "Pinecone key = ext (PineconeInit key) (\<lambda>w. (\<lparr>api_key = key\<rparr>, w))"

definition list_indexes :: "pinecone_client \<Rightarrow> index_info list io" where
  "list_indexes pc = ext ListIndexes (\<lambda>w. (indexes w, w))"

definition create_index :: "pinecone_client \<Rightarrow> index_info \<Rightarrow> unit io" where
  "create_index pc info = ext (CreateIndex info) (\<lambda>w. ((), w\<lparr>indexes := indexes w @ [info]\<rparr>))"

definition describe_index_ready :: "pinecone_client \<Rightarrow> py_str \<Rightarrow> bool io" where
  "describe_index_ready pc name =
     ext (DescribeIndex name) (\<lambda>w. (ready w (polls w), w\<lparr>polls := Suc (polls w)\<rparr>))"

definition pc_Index :: "pinecone_client \<Rightarrow> py_str \<Rightarrow> pinecone_index io" where
  "pc_Index pc name = ext (IndexHandle name) (\<lambda>w. (Index name, w))"

definition PineconeVectorStore :: "pinecone_index \<Rightarrow> embeddings \<Rightarrow> vector_store io" where
  "PineconeVectorStore idx emb =
     (case idx of Index name \<Rightarrow>
        ext (VectorStoreInit name) (\<lambda>w. (\<lparr>store_index = idx, store_embedding = emb\<rparr>, w)))"

definition add_documents :: "vector_store \<Rightarrow> document list \<Rightarrow> unit io" where
  "add_documents vs chunks =
     (case store_index vs of Index name \<Rightarrow>
        ext (AddDocuments name chunks) (\<lambda>w. ((), w\<lparr>stored := stored w @ [(name, chunks)]\<rparr>)))"

text \<open>
  Modelled from the spec: the PDF loader (``load every page of the PDF at a fixed local
  path'') and the splitter (``split into overlapping chunks''), which the environment
  answers for.
\<close>

definition PyPDFLoader :: "py_str \<Rightarrow> py_str io" where
  "PyPDFLoader path = ext (PdfLoaderInit path) (\<lambda>w. (path, w))"

definition loader_load :: "py_str \<Rightarrow> document list io" where
  "loader_load path = ext (PdfLoad path) (\<lambda>w. (files w path, w))"

definition RecursiveCharacterTextSplitter :: "nat \<Rightarrow> nat \<Rightarrow> (nat \<times> nat) io" where
  "RecursiveCharacterTextSplitter chunk_size chunk_overlap =
     ext (SplitterInit chunk_size chunk_overlap) (\<lambda>w. ((chunk_size, chunk_overlap), w))"

definition split_documents :: "nat \<times> nat \<Rightarrow> document list \<Rightarrow> document list io" where
  "split_documents ts docs =
     (case ts of (chunk_size, chunk_overlap) \<Rightarrow>
        ext (SplitDocuments chunk_size chunk_overlap docs)
          (\<lambda>w. (splitter w chunk_size chunk_overlap docs, w)))"

text \<open>Modelled from the spec: the constructors of the embedding model and of the LLM client.\<close>

definition FastEmbedEmbeddings_init :: "embeddings io" where
  "FastEmbedEmbeddings_init = ext FastEmbedInit (\<lambda>w. (FastEmbedEmbeddings, w))"

definition GoogleGenerativeAI :: "py_str \<Rightarrow> py_str option \<Rightarrow> llm io" where
  "GoogleGenerativeAI model key =
     ext (LLMInit model key) (\<lambda>w. (\<lparr>llm_model = model, google_api_key = key\<rparr>, w))"

definition as_retriever :: "vector_store \<Rightarrow> nat \<Rightarrow> retriever io" where
  "as_retriever vs k =
     (case store_index vs of Index name \<Rightarrow>
        ext (AsRetriever name k) (\<lambda>w. (\<lparr>retriever_index = name, search_k = k\<rparr>, w)))"

definition RetrievalQA_from_chain_type ::
  "llm \<Rightarrow> retriever \<Rightarrow> py_str \<Rightarrow> bool \<Rightarrow> prompt_template \<Rightarrow> qa_chain io" where
  "RetrievalQA_from_chain_type l r ct rsd prompt =
     ext ChainInit
       (\<lambda>w. (\<lparr>chain_llm = l, chain_retriever = r, chain_type = ct,
               return_source_documents = rsd, chain_prompt = prompt\<rparr>, w))"

text \<open>
  Modelled from the spec: a query of the hosted index and a call of the hosted LLM
  (``retrieves the k nearest chunks from the vector store'', ``sends the composed prompt
  to a hosted LLM''). The chunks of an index are what was upserted under its name;
  a query returns the first \<open>k\<close> of them in the order of decreasing similarity to the
  question.
\<close>

definition index_chunks :: "py_str \<Rightarrow> world \<Rightarrow> document list" where
  "index_chunks name w = concat (map snd (filter (\<lambda>(n, chunks). n = name) (stored w)))"

definition nearest_first :: "py_str \<Rightarrow> py_str \<Rightarrow> world \<Rightarrow> document list" where
  "nearest_first name question w =
     sort_key (\<lambda>chunk. - score w question chunk) (index_chunks name w)"

definition similarity_search :: "retriever \<Rightarrow> py_str \<Rightarrow> document list io" where
  "similarity_search r question =
     ext (SimilaritySearch (retriever_index r) (search_k r) question)
       (\<lambda>w. (take (search_k r) (nearest_first (retriever_index r) question w), w))"

definition llm_invoke :: "llm \<Rightarrow> py_str \<Rightarrow> py_str io" where
  "llm_invoke l prompt = ext (LLMInvoke prompt) (\<lambda>w. (llm_answer w prompt, w))"

subsection \<open>The name \<^verbatim>\<open>time\<close>\<close>

text \<open>
  Line 1 of the module is \<^verbatim>\<open>from datetime import time\<close>: the module's name \<^verbatim>\<open>time\<close> is
  the class \<^verbatim>\<open>datetime.time\<close>, not the module \<^verbatim>\<open>time\<close>. Looking up \<^verbatim>\<open>sleep\<close> on an
  object gives the function to call, or raises \<^verbatim>\<open>AttributeError\<close>: the class
  \<^verbatim>\<open>datetime.time\<close> has no attribute of that name.
\<close>

datatype py_object = DatetimeTimeClass | TimeModule

definition time :: py_object where
  "time = DatetimeTimeClass"

definition getattr_sleep :: "py_object \<Rightarrow> py_error + (nat \<Rightarrow> world \<Rightarrow> world)" where
  "getattr_sleep obj =
     (case obj of
        TimeModule \<Rightarrow> Inr (\<lambda>secs w. w\<lparr>slept := slept w + secs\<rparr>)
      | DatetimeTimeClass \<Rightarrow> Inl AttributeError)"

definition call_sleep :: "py_object \<Rightarrow> nat \<Rightarrow> unit io" where
  "call_sleep obj secs w =
     (case getattr_sleep obj of
        Inl e \<Rightarrow> Some (Inl e, w)
      | Inr sleep \<Rightarrow> Some (Inr (), sleep secs w))"

subsection \<open>Format strings\<close>

text \<open>
  Modelled from the spec: the prompt is assembled by substituting the inputs ``into the
  template'', which for a template in the default f-string format is Python's
  \<^verbatim>\<open>str.format\<close> with the inputs as keyword arguments. Scanning from the left:
  \<^verbatim>\<open>{{\<close> and \<^verbatim>\<open>}}\<close> stand for one brace; \<^verbatim>\<open>{name}\<close> is replaced by the argument of
  that name, and raises \<^verbatim>\<open>KeyError\<close> when there is none; a \<^verbatim>\<open>{\<close> that is never closed
  and a \<^verbatim>\<open>}\<close> on its own raise \<^verbatim>\<open>ValueError\<close>; every other character stands for
  itself. Fields of any other form (empty or numbered, with a conversion \<^verbatim>\<open>!\<close>, a
  format specification \<^verbatim>\<open>:\<close>, an attribute \<^verbatim>\<open>.\<close>, an index \<^verbatim>\<open>[\<close> or a nested brace)
  are outside the fragment and end in \<open>UnsupportedField\<close>; no statement below rests on
  them. A substituted value is not scanned again.
\<close>

definition plain_field :: "py_str \<Rightarrow> bool" where
  "plain_field f =
     (f \<noteq> [] \<and> \<not> list_all (\<lambda>c. 48 \<le> c \<and> c \<le> 57) f
      \<and> list_all (\<lambda>c. c \<notin> set (ascii ''!:.[]{}'')) f)"

function py_format :: "(py_str \<times> py_str) list \<Rightarrow> py_str \<Rightarrow> py_error + py_str" where
  "py_format kw [] = Inr []"
| "py_format kw (c # cs) =
     (if c = 123 then
        (case cs of
           [] \<Rightarrow> Inl ValueError
         | d # ds \<Rightarrow>
             if d = 123 then map_sum id ((#) 123) (py_format kw ds)
             else
               (let field = takeWhile (\<lambda>x. x \<noteq> 125) cs;
                    rest = dropWhile (\<lambda>x. x \<noteq> 125) cs
                in if rest = [] then Inl ValueError
                   else if \<not> plain_field field then Inl (UnsupportedField field)
                   else (case map_of kw field of
                           None \<Rightarrow> Inl (KeyError field)
                         | Some v \<Rightarrow> map_sum id ((@) v) (py_format kw (tl rest)))))
      else if c = 125 then
        (case cs of
           [] \<Rightarrow> Inl ValueError
         | d # ds \<Rightarrow>
             if d = 125 then map_sum id ((#) 125) (py_format kw ds) else Inl ValueError)
      else map_sum id ((#) c) (py_format kw cs))"
  by pat_completeness auto
termination
proof (relation "measure (\<lambda>(kw, s). length s)")
  fix kw :: "(py_str \<times> py_str) list" and c :: nat and cs :: py_str and rest :: py_str
  assume "rest = dropWhile (\<lambda>x. x \<noteq> 125) cs" and "rest \<noteq> []"
  then have "length (tl rest) < length rest" and "length rest \<le> length cs"
    by (simp_all add: length_dropWhile_le)
  then show "((kw, tl rest), kw, c # cs) \<in> measure (\<lambda>(kw, s). length s)"
    by simp
qed simp_all

text \<open>
  Modelled from the spec: the constructor of a prompt template (``a fixed text skeleton
  with substitution slots''). It scans the text as the formatter does and refuses, with
  the formatter's error, a text that is no format string. The input variables of the
  template are the names of the slots found in the text, without repetition and in
  alphabetical order: the constructor's \<^verbatim>\<open>input_variables\<close> argument does not change
  them.
\<close>

function template_fields :: "py_str \<Rightarrow> py_error + py_str list" where
  "template_fields [] = Inr []"
| "template_fields (c # cs) =
     (if c = 123 then
        (case cs of
           [] \<Rightarrow> Inl ValueError
         | d # ds \<Rightarrow>
             if d = 123 then template_fields ds
             else
               (let field = takeWhile (\<lambda>x. x \<noteq> 125) cs;
                    rest = dropWhile (\<lambda>x. x \<noteq> 125) cs
                in if rest = [] then Inl ValueError
                   else if \<not> plain_field field then Inl (UnsupportedField field)
                   else map_sum id ((#) field) (template_fields (tl rest))))
      else if c = 125 then
        (case cs of
           [] \<Rightarrow> Inl ValueError
         | d # ds \<Rightarrow> if d = 125 then template_fields ds else Inl ValueError)
      else template_fields cs)"
  by pat_completeness auto
termination
proof (relation "measure length")
  fix c :: nat and cs :: py_str and rest :: py_str
  assume "rest = dropWhile (\<lambda>x. x \<noteq> 125) cs" and "rest \<noteq> []"
  then have "length (tl rest) < length rest" and "length rest \<le> length cs"
    by (simp_all add: length_dropWhile_le)
  then show "(tl rest, c # cs) \<in> measure length"
    by simp
qed simp_all

definition PromptTemplate :: "py_str \<Rightarrow> py_str list \<Rightarrow> py_error + prompt_template" where
  "PromptTemplate text declared =
     (case template_fields text of
        Inl e \<Rightarrow> Inl e
      | Inr names \<Rightarrow> Inr \<lparr>template = text, input_variables = sort (remdups names)\<rparr>)"

section \<open>The module\<close>

text \<open>
  The functions of \<^verbatim>\<open>utils.py\<close>, in the order of the file. What they print on the
  console is left out: no statement below is about it.
\<close>

text \<open>
  \<^verbatim>\<open>
  def getTextSplitter():
      text_splitter = RecursiveCharacterTextSplitter(chunk_size=400, chunk_overlap=50)
      return text_splitter

  def getEmbeddingModel():
      embedding_model = FastEmbedEmbeddings()
      return embedding_model

  def getLLM():
      api_key = os.getenv("GOOGLE_API_KEY")
      llm = GoogleGenerativeAI(model="gemini-2.0-flash", google_api_key=api_key)
      return llm
  \<close>
\<close>

definition getTextSplitter :: "(nat \<times> nat) io" where
  "getTextSplitter = RecursiveCharacterTextSplitter 400 50"

definition getEmbeddingModel :: "embeddings io" where
  "getEmbeddingModel = FastEmbedEmbeddings_init"

definition getLLM :: "llm io" where
  "getLLM =
     bind_io (os_getenv (ascii ''GOOGLE_API_KEY'')) (\<lambda>api_key.
     GoogleGenerativeAI (ascii ''gemini-2.0-flash'') api_key)"

text \<open>
  \<^verbatim>\<open>
  def clean_text(text): ...                      (above)

  def create_chunks(file_path):
      loader = PyPDFLoader(f"resources/{file_path}")
      documents = loader.load()
      for doc in documents:
          doc.page_content = clean_text(doc.page_content)
      chunked_docs = getTextSplitter().split_documents(documents)
      return chunked_docs

  def add_documents_to_vector_store(vector_store, pdfs):
      chunks = []
      for pdf in pdfs:
          chunks.extend(create_chunks(pdf))
      vector_store.add_documents(chunks)
  \<close>
\<close>

definition clean_page :: "document \<Rightarrow> document" where
  "clean_page doc = doc\<lparr>page_content := clean_text (page_content doc)\<rparr>"

definition create_chunks :: "py_str \<Rightarrow> document list io" where
  "create_chunks file_path =
     bind_io (PyPDFLoader (ascii ''resources/'' @ file_path)) (\<lambda>loader.
     bind_io (loader_load loader) (\<lambda>documents.
     bind_io getTextSplitter (\<lambda>text_splitter.
     split_documents text_splitter (map clean_page documents))))"

fun extend_chunks :: "py_str list \<Rightarrow> document list \<Rightarrow> document list io" where
  "extend_chunks [] chunks = return_io chunks"
| "extend_chunks (pdf # pdfs) chunks =
     bind_io (create_chunks pdf) (\<lambda>new. extend_chunks pdfs (chunks @ new))"

definition add_documents_to_vector_store :: "vector_store \<Rightarrow> py_str list \<Rightarrow> unit io" where
  "add_documents_to_vector_store vector_store pdfs =
     bind_io (extend_chunks pdfs []) (\<lambda>chunks. add_documents vector_store chunks)"

text \<open>
  \<^verbatim>\<open>
  def create_vector_store(pc, pc_index_name, pdf_files, embedding_model):
      pc.create_index(name=pc_index_name, dimension=384, metric="cosine",
                      spec=ServerlessSpec(cloud="aws", region="us-east-1"))
      while not pc.describe_index(pc_index_name).status['ready']:  # Wait for the index to be ready
          time.sleep(1)
      index = pc.Index(pc_index_name)
      vector_store = PineconeVectorStore(index=index, embedding=embedding_model)
      add_documents_to_vector_store(vector_store, pdf_files)
      return vector_store
  \<close>
  The loop is \<open>wait_until_ready\<close>; it takes the object that the name \<^verbatim>\<open>time\<close> stands
  for, and \<open>create_vector_store\<close> passes the module's own.
\<close>

partial_function (option) wait_until_ready ::
  "py_object \<Rightarrow> pinecone_client \<Rightarrow> py_str \<Rightarrow> world \<Rightarrow> ((py_error + unit) \<times> world) option" where
  "wait_until_ready tm pc pc_index_name w =
     (case describe_index_ready pc pc_index_name w of
        None \<Rightarrow> None
      | Some (Inl e, w1) \<Rightarrow> Some (Inl e, w1)
      | Some (Inr is_ready, w1) \<Rightarrow>
          if is_ready then Some (Inr (), w1)
          else (case call_sleep tm 1 w1 of
                  None \<Rightarrow> None
                | Some (Inl e, w2) \<Rightarrow> Some (Inl e, w2)
                | Some (Inr u, w2) \<Rightarrow> wait_until_ready tm pc pc_index_name w2))"

definition create_vector_store ::
  "pinecone_client \<Rightarrow> py_str \<Rightarrow> py_str list \<Rightarrow> embeddings \<Rightarrow> vector_store io" where
  "create_vector_store pc pc_index_name pdf_files embedding_model =
     bind_io (create_index pc
                \<lparr>index_name = pc_index_name, index_dimension = 384,
                 index_metric = ascii ''cosine'', index_cloud = ascii ''aws'',
                 index_region = ascii ''us-east-1''\<rparr>) (\<lambda>u.
     bind_io (wait_until_ready time pc pc_index_name) (\<lambda>u.
     bind_io (pc_Index pc pc_index_name) (\<lambda>index.
     bind_io (PineconeVectorStore index embedding_model) (\<lambda>vector_store.
     bind_io (add_documents_to_vector_store vector_store pdf_files) (\<lambda>u.
     return_io vector_store)))))"

text \<open>
  \<^verbatim>\<open>
  def get_vector_store(pc_index_name, pdf_files):
      pc = Pinecone(api_key=os.getenv("PINECONE_API_KEY"))
      embedding_model = getEmbeddingModel()
      existing_indexes = [index_info["name"] for index_info in pc.list_indexes()]
      if pc_index_name not in existing_indexes:
          create_vector_store(pc, pc_index_name, pdf_files, embedding_model)
      index = pc.Index(pc_index_name)
      return PineconeVectorStore(index=index, embedding=embedding_model)
  \<close>
\<close>

definition get_vector_store :: "py_str \<Rightarrow> py_str list \<Rightarrow> vector_store io" where
  "get_vector_store pc_index_name pdf_files =
     bind_io (os_getenv (ascii ''PINECONE_API_KEY'')) (\<lambda>key.
     bind_io (Pinecone key) (\<lambda>pc.
     bind_io getEmbeddingModel (\<lambda>embedding_model.
     bind_io (list_indexes pc) (\<lambda>infos.
     let existing_indexes = map index_name infos in
     bind_io (if pc_index_name \<notin> set existing_indexes
              then bind_io (create_vector_store pc pc_index_name pdf_files embedding_model)
                     (\<lambda>vs. return_io ())
              else return_io ()) (\<lambda>u.
     bind_io (pc_Index pc pc_index_name) (\<lambda>index.
     PineconeVectorStore index embedding_model))))))"

text \<open>
  \<^verbatim>\<open>
  def getPromptTemplate(chat_history):
      prompt_template = PromptTemplate(
          template=""" ... {context} ... """ + f"""
                  {chat_history}
                  """ + """
                      user: {question}
                      Assistant:
                      """,
          input_variables=["context", "question"])
      return prompt_template
  \<close>
  The template is the sum of three literals. The first and the third are plain literals
  (\<open>template_head\<close>, \<open>template_tail\<close>, line by line as in the file; the lines of the
  first that come before the \<^verbatim>\<open>{context}\<close> line are \<open>template_instructions\<close>); the
  second is an f-string, evaluated when \<^verbatim>\<open>getPromptTemplate\<close> runs, which puts the chat
  history between two lines of indentation (\<open>f_chat_history\<close>).
\<close>

definition template_instructions :: py_str where
  \<open>template_instructions = concat
     [ascii ''\<newline>'',
      ascii ''            You are a helpful, friendly, and engaging AI assistant for **Icyco**, an ice cream shop. \<newline>'',
      ascii ''            Your job is to answer user questions related to Icyco'' @ [8217] @ ascii ''s products, services, events, or company info in a way that is both informative and delightful.\<newline>'',
      ascii ''    \<newline>'',
      ascii ''            Use the following retrieved documents to provide an accurate and engaging response.\<newline>'',
      ascii ''    \<newline>'',
      ascii ''            - If the user'' @ [8217] @ ascii ''s question is **not related to Icyco**, politely respond with:  \<newline>'',
      ascii ''              *"I'' @ [8217] @ ascii ''m here to help with questions about Icyco only '' @ [8212] @ ascii '' let me know if there'' @ [8217] @ ascii ''s something specific you'' @ [8217] @ ascii ''re curious about!"*\<newline>'',
      ascii ''    \<newline>'',
      ascii ''            - If the user'' @ [8217] @ ascii ''s question **is related to Icyco** but you **cannot find the answer** in the provided documents, say:  \<newline>'',
      ascii ''              *"That'' @ [8217] @ ascii ''s a great question about Icyco, but I couldn'' @ [8217] @ ascii ''t find the answer in the info I have. You might want to reach out to Icyco directly for the most up-to-date details!"*\<newline>'',
      ascii ''    \<newline>'',
      ascii ''            Your tone should be:\<newline>'',
      ascii ''            - Friendly and conversational '' @ [129473] @ ascii ''  \<newline>'',
      ascii ''            - Engaging and easy to understand  \<newline>'',
      ascii ''            - Accurate '' @ [8212] @ ascii '' don'' @ [8217] @ ascii ''t make up any information\<newline>'',
      ascii ''    \<newline>'',
      ascii ''            If it fits naturally, feel free to show enthusiasm, add a touch of personality, or relate to the excitement around ice cream!\<newline>'',
      ascii ''    \<newline>'',
      ascii ''            ---  \<newline>'',
      ascii ''            Context:  \<newline>'']\<close>

definition template_head :: py_str where
  "template_head =
     template_instructions @ ascii ''            {context}\<newline>''
       @ ascii ''            \<newline>''
       @ ascii ''            ''"

definition f_chat_history :: "py_str \<Rightarrow> py_str" where
  "f_chat_history chat_history =
     ascii ''\<newline>                '' @ chat_history @ ascii ''\<newline>                ''"

definition template_tail :: py_str where
  \<open>template_tail = concat
     [ascii ''\<newline>'',
      ascii ''                    user: {question}\<newline>'',
      ascii ''                    Assistant:\<newline>'',
      ascii ''                    '']\<close>

definition getPromptTemplate :: "py_str \<Rightarrow> py_error + prompt_template" where
  "getPromptTemplate chat_history =
     PromptTemplate (template_head @ f_chat_history chat_history @ template_tail)
       [ascii ''context'', ascii ''question'']"

text \<open>
  Modelled from the spec: formatting the template (``substitutes [the inputs] into the
  template''): the inputs are the formatter's keyword arguments.
\<close>

definition format_prompt ::
  "prompt_template \<Rightarrow> (py_str \<times> py_str) list \<Rightarrow> py_error + py_str" where
  "format_prompt t inputs = py_format inputs (template t)"

text \<open>
  \<^verbatim>\<open>
  def createRagChain(llm, vector_store, prompt_template):
      qa_chain = RetrievalQA.from_chain_type(
          llm=llm,
          retriever=vector_store.as_retriever(search_kwargs={"k": 3}),
          chain_type="stuff",
          return_source_documents=True,
          chain_type_kwargs={"prompt": prompt_template},
      )
      return qa_chain
  \<close>
\<close>

definition createRagChain :: "llm \<Rightarrow> vector_store \<Rightarrow> prompt_template \<Rightarrow> qa_chain io" where
  "createRagChain l vector_store prompt =
     bind_io (as_retriever vector_store 3) (\<lambda>r.
     RetrievalQA_from_chain_type l r (ascii ''stuff'') True prompt)"

text \<open>
  Modelled from the spec: one question asked through the chain. ``Per question, [the
  chain] fetches the 3 nearest chunks by embedding similarity, substitutes {context} =
  concatenated chunk text [...] and {question} into the template, and sends the result
  to the hosted LLM. Returns the generated answer text plus the retrieved source
  chunks.'' The number of chunks is the retriever's \<open>search_k\<close>; the chunk texts are
  joined with an empty line between them; the source chunks are part of the response
  when the chain was built with \<^verbatim>\<open>return_source_documents\<close>.
\<close>

fun join_texts :: "py_str list \<Rightarrow> py_str" where
  "join_texts [] = []"
| "join_texts [t] = t"
| "join_texts (t # ts) = t @ ascii ''\<newline>\<newline>'' @ join_texts ts"

definition raise_or_return :: "py_error + 'a \<Rightarrow> 'a io" where
  "raise_or_return r w = Some (r, w)"

definition qa_chain_invoke :: "qa_chain \<Rightarrow> py_str \<Rightarrow> response io" where
  "qa_chain_invoke chain question =
     bind_io (similarity_search (chain_retriever chain) question) (\<lambda>docs.
     bind_io (raise_or_return
                (format_prompt (chain_prompt chain)
                   [(ascii ''context'', join_texts (map page_content docs)),
                    (ascii ''question'', question)])) (\<lambda>prompt.
     bind_io (llm_invoke (chain_llm chain) prompt) (\<lambda>answer.
     return_io \<lparr>result = answer,
                source_documents = (if return_source_documents chain then Some docs else None)\<rparr>)))"

section \<open>Notions used in the statements\<close>

subsection \<open>Strings\<close>

text \<open>
  A string is \<open>collapsed\<close> when every white-space character in it is a single U+0020
  that is not followed by another white-space character.
\<close>

fun collapsed :: "py_str \<Rightarrow> bool" where
  "collapsed [] = True"
| "collapsed [c] = (if py_isspace c then c = 32 else True)"
| "collapsed (c # d # cs) =
     ((if py_isspace c then c = 32 \<and> \<not> py_isspace d else True) \<and> collapsed (d # cs))"

text \<open>
  The words of the specification, ``collapse all whitespace runs to single spaces, trim
  ends'': \<open>ws_runs\<close> cuts a string into its maximal runs of white-space and of other
  characters, \<open>collapse_run\<close> replaces a white-space run by one space, and
  \<open>normalize_spec\<close> puts the runs together again and trims the ends.
\<close>

function ws_runs :: "py_str \<Rightarrow> py_str list" where
  "ws_runs [] = []"
| "ws_runs (c # cs) =
     (c # takeWhile (\<lambda>d. py_isspace d = py_isspace c) cs)
     # ws_runs (dropWhile (\<lambda>d. py_isspace d = py_isspace c) cs)"
  by pat_completeness auto
termination
  by (relation "measure length") (auto simp: length_dropWhile_le less_Suc_eq_le)

definition collapse_run :: "py_str \<Rightarrow> py_str" where
  "collapse_run r = (if r \<noteq> [] \<and> list_all py_isspace r then [32] else r)"

definition normalize_spec :: "py_str \<Rightarrow> py_str" where
  "normalize_spec s = py_strip (concat (map collapse_run (ws_runs s)))"

text \<open>
  A string is \<open>brace_free\<close> when it has neither \<^verbatim>\<open>{\<close> nor \<^verbatim>\<open>}\<close>. The four pieces
  of the template's own text around its two fields are named: what precedes and what
  follows \<^verbatim>\<open>{context}\<close> in the first literal, and what precedes and what follows
  \<^verbatim>\<open>{question}\<close> in the third.
\<close>

definition brace_free :: "py_str \<Rightarrow> bool" where
  "brace_free s = list_all (\<lambda>c. c \<noteq> 123 \<and> c \<noteq> 125) s"

definition before_context :: py_str where
  "before_context = template_instructions @ ascii ''            ''"

definition after_context :: py_str where
  "after_context = ascii ''\<newline>            \<newline>            ''"

definition before_question :: py_str where
  "before_question = ascii ''\<newline>                    user: ''"

definition after_question :: py_str where
  "after_question = ascii ''\<newline>                    Assistant:\<newline>                    ''"

subsection \<open>Runs\<close>

text \<open>\<open>logged c w\<close> is the world \<open>w\<close> with the call \<open>c\<close> added to its log.\<close>

definition logged :: "ext_call \<Rightarrow> world \<Rightarrow> world" where
  "logged c w = w\<lparr>calls := calls w @ [c]\<rparr>"

text \<open>
  \<open>unhandled w r w'\<close>: in a run from \<open>w\<close> to \<open>w'\<close> with the outcome \<open>r\<close>, the
  environment's answers are the same, the log has only grown, and every external call
  of the run that raised some \<open>e\<close> was the last call of the run and \<open>e\<close> is its
  outcome. \<open>propagates m\<close> says so of every run of \<open>m\<close> that returns, and
  \<open>returns m\<close> that every run of \<open>m\<close> does.
\<close>

definition unhandled :: "world \<Rightarrow> py_error + 'a \<Rightarrow> world \<Rightarrow> bool" where
  "unhandled w r w' =
     (fault w' = fault w \<and> (\<exists>cs. calls w' = calls w @ cs) \<and>
      (\<forall>i e. length (calls w) \<le> i \<and> i < length (calls w') \<and> fault w i (calls w' ! i) = Some e
         \<longrightarrow> r = Inl e \<and> Suc i = length (calls w')))"

definition propagates :: "'a io \<Rightarrow> bool" where
  "propagates m = (\<forall>w r w'. m w = Some (r, w') \<longrightarrow> unhandled w r w')"

definition returns :: "'a io \<Rightarrow> bool" where
  "returns m = (\<forall>w. \<exists>r w'. m w = Some (r, w'))"


text \<open>
  The index that \<^verbatim>\<open>create_vector_store\<close> asks for, and the external calls that belong
  to ingestion proper (loading, splitting, upserting).
\<close>

definition created_index :: "py_str \<Rightarrow> index_info" where
  "created_index name =
     \<lparr>index_name = name, index_dimension = 384, index_metric = ascii ''cosine'',
      index_cloud = ascii ''aws'', index_region = ascii ''us-east-1''\<rparr>"

fun ingestion_call :: "ext_call \<Rightarrow> bool" where
  "ingestion_call (PdfLoaderInit path) = True"
| "ingestion_call (PdfLoad path) = True"
| "ingestion_call (SplitterInit chunk_size chunk_overlap) = True"
| "ingestion_call (SplitDocuments chunk_size chunk_overlap docs) = True"
| "ingestion_call (AddDocuments name chunks) = True"
| "ingestion_call c = False"

subsection \<open>Example worlds\<close>

text \<open>
  A world in which nothing raises, the index is ready at once, every PDF has one page,
  the splitter returns its input, a longer chunk is nearer to every question and the
  LLM always gives the same answer.
\<close>

definition demo_world :: world where
  "demo_world =
     \<lparr>environ = (\<lambda>k. None), indexes = [], ready = (\<lambda>n. True), polls = 0, slept = 0,
      stored = [],
      files = (\<lambda>p. [\<lparr>page_content = ascii ''  Icyco \<newline> offers  vanilla '', metadata = []\<rparr>]),
      splitter = (\<lambda>chunk_size chunk_overlap docs. docs),
      score = (\<lambda>question chunk. int (length (page_content chunk))),
      llm_answer = (\<lambda>prompt. ascii ''Vanilla.''),
      fault = (\<lambda>n c. None), calls = []\<rparr>"

text \<open>The same world, except that the fifth external call of the run raises.\<close>

definition failing_world :: world where
  "failing_world = demo_world\<lparr>fault := (\<lambda>n c. if n = 4 then Some (ExternalError 7) else None)\<rparr>"

text \<open>The first world again, with a provider that never reports the index ready.\<close>

definition never_ready_world :: world where
  "never_ready_world = demo_world\<lparr>ready := (\<lambda>n. False)\<rparr>"


subsection \<open>The chain\<close>

text \<open>
  The chain that \<^verbatim>\<open>createRagChain\<close> builds from an LLM client, the name of the store's
  index and a prompt template.
\<close>

definition rag_chain :: "llm \<Rightarrow> py_str \<Rightarrow> prompt_template \<Rightarrow> qa_chain" where
  "rag_chain l name prompt =
     \<lparr>chain_llm = l, chain_retriever = \<lparr>retriever_index = name, search_k = 3\<rparr>,
      chain_type = ascii ''stuff'', return_source_documents = True, chain_prompt = prompt\<rparr>"

text \<open>
  An LLM client, the store of the index \<^verbatim>\<open>icyco\<close>, a template with the two slots, and the
  chain built from them.
\<close>

definition demo_llm :: llm where
  "demo_llm = \<lparr>llm_model = ascii ''gemini-2.0-flash'', google_api_key = None\<rparr>"

definition demo_store :: vector_store where
  "demo_store = \<lparr>store_index = Index (ascii ''icyco''), store_embedding = FastEmbedEmbeddings\<rparr>"

definition demo_prompt :: prompt_template where
  "demo_prompt =
     \<lparr>template = ascii ''{context} {question}'',
      input_variables = [ascii ''context'', ascii ''question'']\<rparr>"

definition demo_chain :: qa_chain where
  "demo_chain = rag_chain demo_llm (ascii ''icyco'') demo_prompt"

text \<open>A chunk with the given text.\<close>

definition page :: "string \<Rightarrow> document" where
  "page s = \<lparr>page_content = ascii s, metadata = []\<rparr>"

text \<open>The first world with one chunk in the index, and with four.\<close>

definition one_chunk_world :: world where
  "one_chunk_world = demo_world\<lparr>stored := [(ascii ''icyco'', [page ''Icyco offers vanilla''])]\<rparr>"

definition stocked_world :: world where
  "stocked_world =
     demo_world\<lparr>stored := [(ascii ''icyco'',
        [page ''Cones'', page ''Vanilla and chocolate'', page ''Open'', page ''Strawberry''])]\<rparr>"

section \<open>White-space normalisation\<close>

lemma py_isspace_32: "py_isspace 32"
  by (simp add: py_isspace_def)

lemma dropWhile_space_cases:
  obtains "dropWhile py_isspace cs = []"
  | d ds where "dropWhile py_isspace cs = d # ds" "\<not> py_isspace d"
  by (metis hd_dropWhile list.exhaust list.sel(1))

lemma collapsed_re_sub_ws: "collapsed (re_sub_ws s)"
proof (induction s rule: re_sub_ws.induct)
  case 1
  show ?case by simp
next
  case (2 c cs)
  show ?case
  proof (cases "py_isspace c")
    case True
    note sp = this
    show ?thesis
    proof (cases cs rule: dropWhile_space_cases)
      case 1
      from sp show ?thesis by (simp add: 1 py_isspace_32)
    next
      case (2 d ds)
      from sp "2.IH"(1) 2(2) show ?thesis by (simp add: 2(1) py_isspace_32)
    qed
  next
    case False
    note nsp = this
    with "2.IH"(2) have ih: "collapsed (re_sub_ws cs)" by simp
    show ?thesis
    proof (cases "re_sub_ws cs")
      case Nil
      with nsp show ?thesis by simp
    next
      case (Cons e es)
      with nsp ih show ?thesis by simp
    qed
  qed
qed

lemma re_sub_ws_collapsed: "collapsed t \<Longrightarrow> re_sub_ws t = t"
  by (induction t rule: collapsed.induct) (auto split: if_splits)

lemma collapsed_Cons: "collapsed (c # cs) \<Longrightarrow> collapsed cs"
  by (cases cs) auto

lemma collapsed_dropWhile: "collapsed t \<Longrightarrow> collapsed (dropWhile P t)"
  by (induction t) (auto dest: collapsed_Cons)

lemma collapsed_butlast: "collapsed t \<Longrightarrow> collapsed (butlast t)"
  by (induction t rule: collapsed.induct) (auto split: if_splits)

lemma collapsed_strip_right: "collapsed t \<Longrightarrow> collapsed (rev (dropWhile P (rev t)))"
proof (induction t rule: rev_induct)
  case Nil
  show ?case by simp
next
  case (snoc x xs)
  from snoc.prems have "collapsed xs" using collapsed_butlast by fastforce
  with snoc show ?case by simp
qed

lemma collapsed_py_strip: "collapsed t \<Longrightarrow> collapsed (py_strip t)"
  by (simp add: py_strip_def collapsed_dropWhile collapsed_strip_right)

lemma collapsed_clean_text: "collapsed (clean_text s)"
  by (simp add: clean_text_def collapsed_py_strip collapsed_re_sub_ws)

lemma last_dropWhile: "dropWhile P xs \<noteq> [] \<Longrightarrow> last (dropWhile P xs) = last xs"
  by (induction xs) (auto split: if_splits)

lemma strip_right_noop: "xs = [] \<or> \<not> P (last xs) \<Longrightarrow> rev (dropWhile P (rev xs)) = xs"
  by (cases xs rule: rev_cases) auto

lemma last_strip_right:
  "rev (dropWhile P (rev xs)) \<noteq> [] \<Longrightarrow> \<not> P (last (rev (dropWhile P (rev xs))))"
  by (simp add: last_rev hd_dropWhile)

lemma py_strip_ends:
  "py_strip s = [] \<or> (\<not> py_isspace (hd (py_strip s)) \<and> \<not> py_isspace (last (py_strip s)))"
proof (cases "py_strip s = []")
  case True
  then show ?thesis by simp
next
  case False
  then have ne: "dropWhile py_isspace (rev (dropWhile py_isspace (rev s))) \<noteq> []"
    by (simp add: py_strip_def)
  then have "rev (dropWhile py_isspace (rev s)) \<noteq> []"
    by (metis dropWhile.simps(1))
  then have "\<not> py_isspace (last (rev (dropWhile py_isspace (rev s))))"
    by (rule last_strip_right)
  with last_dropWhile [OF ne] have "\<not> py_isspace (last (py_strip s))"
    by (simp only: py_strip_def not_False_eq_True)
  moreover from ne have "\<not> py_isspace (hd (py_strip s))"
    unfolding py_strip_def by (rule hd_dropWhile)
  ultimately show ?thesis by simp
qed

lemma py_strip_noop:
  assumes "t = [] \<or> (\<not> py_isspace (hd t) \<and> \<not> py_isspace (last t))"
  shows "py_strip t = t"
proof (cases t)
  case Nil
  then show ?thesis by (simp add: py_strip_def)
next
  case (Cons c cs)
  with assms have "rev (dropWhile py_isspace (rev t)) = t"
    by (intro strip_right_noop) simp
  moreover from Cons assms have "dropWhile py_isspace t = t" by simp
  ultimately show ?thesis by (simp add: py_strip_def)
qed

lemma py_strip_idem: "py_strip (py_strip s) = py_strip s"
  by (rule py_strip_noop) (rule py_strip_ends)

text \<open>
  Claim C5. \<^verbatim>\<open>clean_text\<close> is idempotent: for every string \<open>s\<close>, cleaning the cleaned
  string gives the cleaned string again.
\<close>

theorem clean_text_idempotent: "clean_text (clean_text s) = clean_text s"
proof -
  have "re_sub_ws (clean_text s) = clean_text s"
    using collapsed_clean_text by (rule re_sub_ws_collapsed)
  then have "clean_text (clean_text s) = py_strip (clean_text s)"
    by (simp add: clean_text_def)
  also have "\<dots> = clean_text s"
    by (simp add: clean_text_def py_strip_idem)
  finally show ?thesis .
qed

text \<open>
  The runs of a string are a partition of it into non-empty parts, each of white space
  only or free of white space.
\<close>

lemma concat_ws_runs: "concat (ws_runs s) = s"
  by (induction s rule: ws_runs.induct) simp_all

lemma list_all_takeWhile: "list_all P (takeWhile P xs)"
  by (induction xs) simp_all

lemma ws_runs_homogeneous:
  "r \<in> set (ws_runs s) \<Longrightarrow> r \<noteq> [] \<and> (list_all py_isspace r \<or> list_all (\<lambda>c. \<not> py_isspace c) r)"
proof (induction s rule: ws_runs.induct)
  case 1
  then show ?case by simp
next
  case (2 c cs)
  let ?same = "\<lambda>d. py_isspace d = py_isspace c"
  have same: "list_all ?same (takeWhile ?same cs)"
    by (rule list_all_takeWhile)
  have hd_run: "list_all py_isspace (c # takeWhile ?same cs)
     \<or> list_all (\<lambda>c. \<not> py_isspace c) (c # takeWhile ?same cs)"
  proof (cases "py_isspace c")
    case True
    with same show ?thesis by (simp add: list_all_iff)
  next
    case False
    with same show ?thesis by (simp add: list_all_iff)
  qed
  from "2.prems" have "r = c # takeWhile ?same cs \<or> r \<in> set (ws_runs (dropWhile ?same cs))"
    by simp
  then show ?case
  proof
    assume "r = c # takeWhile ?same cs"
    with hd_run show ?thesis by simp
  next
    assume "r \<in> set (ws_runs (dropWhile ?same cs))"
    then show ?thesis by (rule "2.IH")
  qed
qed

lemma re_sub_ws_nonspace_prefix:
  "list_all (\<lambda>c. \<not> py_isspace c) xs \<Longrightarrow> re_sub_ws (xs @ ys) = xs @ re_sub_ws ys"
  by (induction xs) simp_all

lemma re_sub_ws_runs: "re_sub_ws s = concat (map collapse_run (ws_runs s))"
proof (induction s rule: ws_runs.induct)
  case 1
  show ?case by simp
next
  case (2 c cs)
  show ?case
  proof (cases "py_isspace c")
    case True
    then have eq: "(\<lambda>d. py_isspace d = py_isspace c) = py_isspace" by auto
    have "list_all py_isspace (takeWhile py_isspace cs)"
      by (rule list_all_takeWhile)
    with True 2 show ?thesis by (simp add: eq collapse_run_def)
  next
    case False
    then have eq: "(\<lambda>d. py_isspace d = py_isspace c) = (\<lambda>d. \<not> py_isspace d)" by auto
    have all: "list_all (\<lambda>d. \<not> py_isspace d) (takeWhile (\<lambda>d. \<not> py_isspace d) cs)"
      by (rule list_all_takeWhile)
    have "re_sub_ws cs = re_sub_ws (takeWhile (\<lambda>d. \<not> py_isspace d) cs @ dropWhile (\<lambda>d. \<not> py_isspace d) cs)"
      by simp
    also have "\<dots> = takeWhile (\<lambda>d. \<not> py_isspace d) cs @ re_sub_ws (dropWhile (\<lambda>d. \<not> py_isspace d) cs)"
      using all by (rule re_sub_ws_nonspace_prefix)
    finally have "re_sub_ws cs = takeWhile (\<lambda>d. \<not> py_isspace d) cs @ re_sub_ws (dropWhile (\<lambda>d. \<not> py_isspace d) cs)" .
    with False 2 show ?thesis by (simp add: eq collapse_run_def)
  qed
qed

lemma clean_text_normalize_spec: "clean_text s = normalize_spec s"
  by (simp add: clean_text_def normalize_spec_def re_sub_ws_runs)

lemma clean_text_ends:
  "clean_text s = [] \<or> (\<not> py_isspace (hd (clean_text s)) \<and> \<not> py_isspace (last (clean_text s)))"
  unfolding clean_text_def Let_def by (rule py_strip_ends)

section \<open>Runs of the module\<close>

subsection \<open>Step by step\<close>

text \<open>
  Equations that run a function of the module one external call at a time: each call
  either raises what the environment says, leaving the call in the log, or goes on. They
  give the whole behaviour of the straight-line functions as one case distinction over
  the environment's answers.
\<close>

lemma logged_simps [simp]:
  "calls (logged c w) = calls w @ [c]"
  "fault (logged c w) = fault w"
  "indexes (logged c w) = indexes w"
  "stored (logged c w) = stored w"
  "files (logged c w) = files w"
  "splitter (logged c w) = splitter w"
  "environ (logged c w) = environ w"
  "ready (logged c w) = ready w"
  "polls (logged c w) = polls w"
  "slept (logged c w) = slept w"
  "score (logged c w) = score w"
  "llm_answer (logged c w) = llm_answer w"
  by (simp_all add: logged_def)

lemma ext_eq:
  "ext c act w =
     (case fault w (length (calls w)) c of
        Some e \<Rightarrow> Some (Inl e, logged c w)
      | None \<Rightarrow> Some (Inr (fst (act (logged c w))), snd (act (logged c w))))"
  by (simp add: ext_def logged_def Let_def split: option.splits prod.splits)

lemma bind_ext:
  "bind_io (ext c act) f w =
     (case fault w (length (calls w)) c of
        Some e \<Rightarrow> Some (Inl e, logged c w)
      | None \<Rightarrow> f (fst (act (logged c w))) (snd (act (logged c w))))"
  by (simp add: bind_io_def ext_eq split: option.splits)

lemma bind_return: "bind_io (return_io a) f w = f a w"
  by (simp add: bind_io_def return_io_def)

lemma bind_getenv: "bind_io (os_getenv k) f w = f (environ w k) w"
  by (simp add: bind_io_def os_getenv_def)

lemma bind_assoc: "bind_io (bind_io m f) g = bind_io m (\<lambda>a. bind_io (f a) g)"
  by (rule ext) (simp add: bind_io_def split: option.splits prod.splits sum.splits)

lemma create_chunks_eq:
  "create_chunks file_path w =
    (let path = ascii ''resources/'' @ file_path;
         n = length (calls w);
         docs = map clean_page (files w path);
         c1 = PdfLoaderInit path; c2 = PdfLoad path; c3 = SplitterInit 400 50;
         c4 = SplitDocuments 400 50 docs;
         w1 = logged c1 w; w2 = logged c2 w1; w3 = logged c3 w2; w4 = logged c4 w3
     in case fault w n c1 of Some e \<Rightarrow> Some (Inl e, w1) | None \<Rightarrow>
        (case fault w (Suc n) c2 of Some e \<Rightarrow> Some (Inl e, w2) | None \<Rightarrow>
        (case fault w (Suc (Suc n)) c3 of Some e \<Rightarrow> Some (Inl e, w3) | None \<Rightarrow>
        (case fault w (Suc (Suc (Suc n))) c4 of Some e \<Rightarrow> Some (Inl e, w4) | None \<Rightarrow>
           Some (Inr (splitter w 400 50 docs), w4)))))"
  by (simp add: create_chunks_def PyPDFLoader_def loader_load_def getTextSplitter_def
      RecursiveCharacterTextSplitter_def split_documents_def bind_ext ext_eq Let_def
      split: option.splits)


text \<open>With the module's \<^verbatim>\<open>time\<close> the loop makes one readiness check and returns.\<close>

lemma wait_until_ready_time:
  "wait_until_ready time pc name w =
     (let c = DescribeIndex name; w1 = (logged c w)\<lparr>polls := Suc (polls w)\<rparr> in
      case fault w (length (calls w)) c of
        Some e \<Rightarrow> Some (Inl e, logged c w)
      | None \<Rightarrow> if ready w (polls w) then Some (Inr (), w1) else Some (Inl AttributeError, w1))"
  by (subst wait_until_ready.simps)
    (simp add: describe_index_ready_def ext_eq call_sleep_def getattr_sleep_def time_def
      Let_def split: option.splits)

lemma bind_wait_time:
  "bind_io (wait_until_ready time pc name) f w =
     (let c = DescribeIndex name; w1 = (logged c w)\<lparr>polls := Suc (polls w)\<rparr> in
      case fault w (length (calls w)) c of
        Some e \<Rightarrow> Some (Inl e, logged c w)
      | None \<Rightarrow> if ready w (polls w) then f () w1 else Some (Inl AttributeError, w1))"
  by (simp add: bind_io_def wait_until_ready_time Let_def split: option.splits)

lemma create_vector_store_eq:
  "create_vector_store pc name pdfs emb w =
     (let c1 = CreateIndex (created_index name); c2 = DescribeIndex name;
          n = length (calls w);
          w1 = (logged c1 w)\<lparr>indexes := indexes w @ [created_index name]\<rparr>;
          w2 = (logged c2 w1)\<lparr>polls := Suc (polls w)\<rparr>
      in case fault w n c1 of
           Some e \<Rightarrow> Some (Inl e, logged c1 w)
         | None \<Rightarrow>
            (case fault w (Suc n) c2 of
               Some e \<Rightarrow> Some (Inl e, logged c2 w1)
             | None \<Rightarrow>
                 if ready w (polls w)
                 then bind_io (pc_Index pc name) (\<lambda>index.
                      bind_io (PineconeVectorStore index emb) (\<lambda>vector_store.
                      bind_io (add_documents_to_vector_store vector_store pdfs) (\<lambda>u.
                      return_io vector_store))) w2
                 else Some (Inl AttributeError, w2)))"
  by (simp add: create_vector_store_def created_index_def create_index_def bind_ext
      bind_wait_time Let_def split: option.splits)

lemma create_vector_store_not_ready_eq:
  assumes "\<not> ready w (polls w)"
  shows "create_vector_store pc name pdfs emb w =
     (let c1 = CreateIndex (created_index name); c2 = DescribeIndex name;
          n = length (calls w);
          w1 = (logged c1 w)\<lparr>indexes := indexes w @ [created_index name]\<rparr>;
          w2 = (logged c2 w1)\<lparr>polls := Suc (polls w)\<rparr>
      in case fault w n c1 of
           Some e \<Rightarrow> Some (Inl e, logged c1 w)
         | None \<Rightarrow>
            (case fault w (Suc n) c2 of
               Some e \<Rightarrow> Some (Inl e, logged c2 w1)
             | None \<Rightarrow> Some (Inl AttributeError, w2)))"
  using assms by (simp add: create_vector_store_eq Let_def)

lemma create_vector_store_not_ready_calls:
  assumes nr: "\<not> ready w (polls w)"
    and run: "create_vector_store pc name pdfs emb w = Some (r, w')"
  shows "(\<exists>e. r = Inl e) \<and>
     set (drop (length (calls w)) (calls w')) \<subseteq> {CreateIndex (created_index name), DescribeIndex name}"
  using run unfolding create_vector_store_not_ready_eq [OF nr] Let_def
  by (auto split: option.splits)








subsection \<open>Exceptions of the dependencies\<close>

lemma unhandled_refl: "unhandled w r w"
  by (auto simp: unhandled_def)

lemma unhandled_trans:
  assumes 1: "unhandled w (Inr a) w1" and 2: "unhandled w1 r w'"
  shows "unhandled w r w'"
proof -
  from 1 obtain cs1 where f1: "fault w1 = fault w" and c1: "calls w1 = calls w @ cs1"
    and n1: "\<And>i e. length (calls w) \<le> i \<Longrightarrow> i < length (calls w1) \<Longrightarrow>
               fault w i (calls w1 ! i) \<noteq> Some e"
    unfolding unhandled_def by blast
  from 2 obtain cs2 where f2: "fault w' = fault w1" and c2: "calls w' = calls w1 @ cs2"
    and n2: "\<And>i e. length (calls w1) \<le> i \<Longrightarrow> i < length (calls w') \<Longrightarrow>
               fault w1 i (calls w' ! i) = Some e \<Longrightarrow> r = Inl e \<and> Suc i = length (calls w')"
    unfolding unhandled_def by blast
  have "r = Inl e \<and> Suc i = length (calls w')"
    if "length (calls w) \<le> i" "i < length (calls w')" "fault w i (calls w' ! i) = Some e" for i e
  proof (cases "i < length (calls w1)")
    case True
    then have "calls w' ! i = calls w1 ! i" by (simp add: c2 nth_append)
    with that True n1 show ?thesis by metis
  next
    case False
    then have "length (calls w1) \<le> i" by simp
    with that f1 n2 [of i e] show ?thesis by simp
  qed
  then have "\<forall>i e. length (calls w) \<le> i \<and> i < length (calls w') \<and>
      fault w i (calls w' ! i) = Some e \<longrightarrow> r = Inl e \<and> Suc i = length (calls w')"
    by blast
  moreover have "fault w' = fault w" by (simp add: f1 f2)
  moreover have "\<exists>cs. calls w' = calls w @ cs" by (simp add: c1 c2)
  ultimately show ?thesis unfolding unhandled_def by blast
qed

lemma propagates_return: "propagates (return_io a)"
  by (simp add: propagates_def return_io_def unhandled_refl)

lemma propagates_getenv: "propagates (os_getenv k)"
  by (simp add: propagates_def os_getenv_def unhandled_refl)

lemma propagates_bind:
  assumes m: "propagates m" and f: "\<And>a. propagates (f a)"
  shows "propagates (bind_io m f)"
  unfolding propagates_def
proof (intro allI impI)
  fix w r w'
  assume run: "bind_io m f w = Some (r, w')"
  show "unhandled w r w'"
  proof (cases "m w")
    case None
    with run show ?thesis by (simp add: bind_io_def)
  next
    case (Some p)
    obtain r1 w1 where p: "p = (r1, w1)" by (cases p)
    show ?thesis
    proof (cases r1)
      case (Inl e)
      with run Some p have "r = Inl e" "w' = w1" by (simp_all add: bind_io_def)
      moreover from m Some p Inl have "unhandled w (Inl e :: py_error + 'a) w1"
        by (simp add: propagates_def)
      ultimately show ?thesis by (simp add: unhandled_def)
    next
      case (Inr a)
      with run Some p have "f a w1 = Some (r, w')" by (simp add: bind_io_def)
      with f have "unhandled w1 r w'" by (simp add: propagates_def)
      moreover from m Some p Inr have "unhandled w (Inr a) w1" by (simp add: propagates_def)
      ultimately show ?thesis by (rule unhandled_trans [rotated])
    qed
  qed
qed

lemma propagates_ext:
  assumes "\<And>w. fault (snd (act w)) = fault w \<and> calls (snd (act w)) = calls w"
  shows "propagates (ext c act)"
  unfolding propagates_def
proof (intro allI impI)
  fix w r w'
  assume run: "ext c act w = Some (r, w')"
  show "unhandled w r w'"
  proof (cases "fault w (length (calls w)) c")
    case None
    with run have "w' = snd (act (logged c w))" by (simp add: ext_eq)
    with assms [of "logged c w"] have "fault w' = fault w" "calls w' = calls w @ [c]" by simp_all
    with None show ?thesis by (auto simp: unhandled_def less_Suc_eq_le nth_append)
  next
    case (Some e)
    with run have "r = Inl e" "w' = logged c w" by (simp_all add: ext_eq)
    with Some show ?thesis by (auto simp: unhandled_def less_Suc_eq_le nth_append)
  qed
qed


lemma propagates_calls:
  "propagates (Pinecone key)"
  "propagates (list_indexes pc)"
  "propagates (create_index pc info)"
  "propagates (describe_index_ready pc name)"
  "propagates (pc_Index pc name)"
  "propagates (PineconeVectorStore idx emb)"
  "propagates (add_documents vs chunks)"
  "propagates (PyPDFLoader path)"
  "propagates (loader_load path)"
  "propagates (RecursiveCharacterTextSplitter n k)"
  "propagates (split_documents ts docs)"
  "propagates FastEmbedEmbeddings_init"
  "propagates (GoogleGenerativeAI model gkey)"
  "propagates (as_retriever vs k)"
  "propagates (RetrievalQA_from_chain_type l r ct rsd prompt)"
  by (simp_all add: Pinecone_def list_indexes_def create_index_def describe_index_ready_def
      pc_Index_def PineconeVectorStore_def add_documents_def PyPDFLoader_def loader_load_def
      RecursiveCharacterTextSplitter_def split_documents_def FastEmbedEmbeddings_init_def
      GoogleGenerativeAI_def as_retriever_def RetrievalQA_from_chain_type_def propagates_ext
      split: pinecone_index.splits prod.splits)

lemma propagates_call_sleep: "propagates (call_sleep obj secs)"
  by (cases obj) (auto simp: propagates_def call_sleep_def getattr_sleep_def unhandled_def)

lemma unhandled_wait_step:
  fixes wait :: "py_object \<Rightarrow> pinecone_client \<Rightarrow> py_str \<Rightarrow> world \<Rightarrow> ((py_error + unit) \<times> world) option"
  assumes IH: "\<And>tm pc name w y. wait tm pc name w = Some y \<Longrightarrow> unhandled w (fst y) (snd y)"
    and run: "(case describe_index_ready pc name w of
                 None \<Rightarrow> None
               | Some (Inl e, w1) \<Rightarrow> Some (Inl e, w1)
               | Some (Inr is_ready, w1) \<Rightarrow>
                   if is_ready then Some (Inr (), w1)
                   else (case call_sleep tm 1 w1 of
                           None \<Rightarrow> None
                         | Some (Inl e, w2) \<Rightarrow> Some (Inl e, w2)
                         | Some (Inr u, w2) \<Rightarrow> wait tm pc name w2)) = Some y"
  shows "unhandled w (fst y) (snd y)"
proof (cases "describe_index_ready pc name w")
  case None
  with run show ?thesis by simp
next
  case (Some p)
  note d = this
  obtain r1 w1 where p: "p = (r1, w1)" by (cases p)
  from d p propagates_calls(4) have u1: "unhandled w r1 w1"
    by (simp add: propagates_def)
  show ?thesis
  proof (cases r1)
    case (Inl e)
    with run d p have "y = (Inl e, w1)" by simp
    moreover from u1 Inl have "unhandled w (Inl e :: py_error + unit) w1"
      by (simp add: unhandled_def)
    ultimately show ?thesis by simp
  next
    case (Inr is_ready)
    note r1 = this
    show ?thesis
    proof (cases is_ready)
      case True
      with run d p r1 have "y = (Inr (), w1)" by simp
      moreover from u1 r1 have "unhandled w (Inr () :: py_error + unit) w1"
        by (simp add: unhandled_def)
      ultimately show ?thesis by simp
    next
      case False
      note nr = this
      show ?thesis
      proof (cases "call_sleep tm 1 w1")
        case None
        with run d p r1 nr show ?thesis by simp
      next
        case (Some q)
        obtain r2 w2 where q: "q = (r2, w2)" by (cases q)
        from Some q propagates_call_sleep have u2: "unhandled w1 r2 w2"
          by (simp add: propagates_def)
        from u1 r1 have u1': "unhandled w (Inr is_ready) w1" by simp
        show ?thesis
        proof (cases r2)
          case (Inl e)
          with run d p r1 nr Some q have "y = (Inl e, w2)" by simp
          moreover from u2 Inl have "unhandled w1 (Inl e :: py_error + unit) w2"
            by (simp add: unhandled_def)
          with u1' have "unhandled w (Inl e :: py_error + unit) w2"
            by (rule unhandled_trans)
          ultimately show ?thesis by simp
        next
          case (Inr u)
          with run d p r1 nr Some q have "wait tm pc name w2 = Some y" by simp
          then have "unhandled w2 (fst y) (snd y)" by (rule IH)
          moreover from u2 Inr have "unhandled w1 (Inr u) w2" by simp
          with u1' have "unhandled w (Inr u) w2" by (rule unhandled_trans)
          ultimately show ?thesis by (rule unhandled_trans [rotated])
        qed
      qed
    qed
  qed
qed

lemma unhandled_wait_until_ready:
  assumes "wait_until_ready tm pc name w = Some y"
  shows "unhandled w (fst y) (snd y)"
  by (rule wait_until_ready.raw_induct
      [where P = "\<lambda>tm pc name w y. unhandled w (fst y) (snd y)", OF _ assms])
    (rule unhandled_wait_step)

lemma propagates_wait_until_ready: "propagates (wait_until_ready tm pc name)"
  unfolding propagates_def using unhandled_wait_until_ready by fastforce

lemma propagates_getTextSplitter: "propagates getTextSplitter"
  by (simp add: getTextSplitter_def propagates_calls)

lemma propagates_getEmbeddingModel: "propagates getEmbeddingModel"
  by (simp add: getEmbeddingModel_def propagates_calls)

lemma propagates_getLLM: "propagates getLLM"
  unfolding getLLM_def by (intro propagates_bind propagates_getenv propagates_calls)

lemma propagates_create_chunks: "propagates (create_chunks file_path)"
  unfolding create_chunks_def
  by (intro propagates_bind propagates_calls propagates_getTextSplitter)

lemma propagates_extend_chunks: "propagates (extend_chunks pdfs chunks)"
proof (induction pdfs arbitrary: chunks)
  case Nil
  show ?case by (simp add: propagates_return)
next
  case (Cons pdf pdfs)
  show ?case
    unfolding extend_chunks.simps
    by (intro propagates_bind propagates_create_chunks Cons)
qed

lemma propagates_add_documents_to_vector_store:
  "propagates (add_documents_to_vector_store vector_store pdfs)"
  unfolding add_documents_to_vector_store_def
  by (intro propagates_bind propagates_extend_chunks propagates_calls)

lemma propagates_create_vector_store:
  "propagates (create_vector_store pc pc_index_name pdf_files embedding_model)"
  unfolding create_vector_store_def
  by (intro propagates_bind propagates_calls propagates_wait_until_ready
      propagates_add_documents_to_vector_store propagates_return)

lemma propagates_get_vector_store: "propagates (get_vector_store pc_index_name pdf_files)"
  unfolding get_vector_store_def Let_def
  by (intro propagates_bind propagates_getenv propagates_calls propagates_getEmbeddingModel)
    (auto intro!: propagates_bind propagates_return propagates_create_vector_store)

lemma propagates_createRagChain: "propagates (createRagChain l vector_store prompt)"
  unfolding createRagChain_def by (intro propagates_bind propagates_calls)

subsection \<open>Every run returns\<close>

lemma returns_return: "returns (return_io a)"
  by (simp add: returns_def return_io_def)

lemma returns_getenv: "returns (os_getenv k)"
  by (simp add: returns_def os_getenv_def)

lemma returns_ext: "returns (ext c act)"
  by (simp add: returns_def ext_eq split: option.splits)

lemma returns_bind:
  assumes m: "returns m" and f: "\<And>a. returns (f a)"
  shows "returns (bind_io m f)"
  unfolding returns_def
proof
  fix w
  from m obtain r1 w1 where 1: "m w = Some (r1, w1)" unfolding returns_def by blast
  show "\<exists>r w'. bind_io m f w = Some (r, w')"
  proof (cases r1)
    case (Inl e)
    with 1 show ?thesis by (simp add: bind_io_def)
  next
    case (Inr a)
    from f [of a] obtain r w' where "f a w1 = Some (r, w')" unfolding returns_def by blast
    with 1 Inr show ?thesis by (simp add: bind_io_def)
  qed
qed

lemma returns_calls:
  "returns (Pinecone key)"
  "returns (list_indexes pc)"
  "returns (create_index pc info)"
  "returns (describe_index_ready pc name)"
  "returns (pc_Index pc name)"
  "returns (PineconeVectorStore idx emb)"
  "returns (add_documents vs chunks)"
  "returns (PyPDFLoader path)"
  "returns (loader_load path)"
  "returns (RecursiveCharacterTextSplitter n k)"
  "returns (split_documents ts docs)"
  "returns FastEmbedEmbeddings_init"
  "returns (GoogleGenerativeAI model gkey)"
  "returns (as_retriever vs k)"
  "returns (RetrievalQA_from_chain_type l r ct rsd prompt)"
  by (simp_all add: Pinecone_def list_indexes_def create_index_def describe_index_ready_def
      pc_Index_def PineconeVectorStore_def add_documents_def PyPDFLoader_def loader_load_def
      RecursiveCharacterTextSplitter_def split_documents_def FastEmbedEmbeddings_init_def
      GoogleGenerativeAI_def as_retriever_def RetrievalQA_from_chain_type_def returns_ext
      split: pinecone_index.splits prod.splits)

lemma returns_wait_until_ready: "returns (wait_until_ready time pc name)"
  by (simp add: returns_def wait_until_ready_time Let_def split: option.splits)

lemma returns_getTextSplitter: "returns getTextSplitter"
  by (simp add: getTextSplitter_def returns_calls)

lemma returns_getEmbeddingModel: "returns getEmbeddingModel"
  by (simp add: getEmbeddingModel_def returns_calls)

lemma returns_getLLM: "returns getLLM"
  unfolding getLLM_def by (intro returns_bind returns_getenv returns_calls)

lemma returns_create_chunks: "returns (create_chunks file_path)"
  unfolding create_chunks_def
  by (intro returns_bind returns_calls returns_getTextSplitter)

lemma returns_extend_chunks: "returns (extend_chunks pdfs chunks)"
proof (induction pdfs arbitrary: chunks)
  case Nil
  show ?case by (simp add: returns_return)
next
  case (Cons pdf pdfs)
  show ?case
    unfolding extend_chunks.simps
    by (intro returns_bind returns_create_chunks Cons)
qed

lemma returns_add_documents_to_vector_store:
  "returns (add_documents_to_vector_store vector_store pdfs)"
  unfolding add_documents_to_vector_store_def
  by (intro returns_bind returns_extend_chunks returns_calls)

lemma returns_create_vector_store:
  "returns (create_vector_store pc pc_index_name pdf_files embedding_model)"
  unfolding create_vector_store_def
  by (intro returns_bind returns_calls returns_wait_until_ready
      returns_add_documents_to_vector_store returns_return)

lemma returns_get_vector_store: "returns (get_vector_store pc_index_name pdf_files)"
  unfolding get_vector_store_def Let_def
  by (intro returns_bind returns_getenv returns_calls returns_getEmbeddingModel)
    (auto intro!: returns_bind returns_return returns_create_vector_store)

lemma returns_createRagChain: "returns (createRagChain l vector_store prompt)"
  unfolding createRagChain_def by (intro returns_bind returns_calls)

section \<open>Normalisation before chunking\<close>

lemma create_chunks_split_argument:
  assumes "create_chunks file_path w = Some (r, w')"
    and "SplitDocuments sz ov docs \<in> set (drop (length (calls w)) (calls w'))"
  shows "docs = map clean_page (files w (ascii ''resources/'' @ file_path))"
  using assms
  by (simp add: create_chunks_eq Let_def split: option.splits) auto

lemma create_chunks_no_fault:
  assumes "\<forall>i c. fault w i c = None"
  shows "\<exists>w'. create_chunks file_path w =
     Some (Inr (splitter w 400 50 (map clean_page (files w (ascii ''resources/'' @ file_path)))), w')"
  using assms by (simp add: create_chunks_eq Let_def)

text \<open>
  Claim C6. For every string, \<^verbatim>\<open>clean_text\<close> replaces every maximal run of white
  space by a single space and removes the white space at both ends: its result is
  \<open>normalize_spec\<close> of the string, and it neither begins nor ends with white space.
  \<^verbatim>\<open>create_chunks\<close> applies it to the text of every loaded page before splitting:
  whatever the environment does, the documents passed to the splitter are the loaded
  pages with their text cleaned, and when no call raises the result is what the splitter
  makes of them.
\<close>

theorem clean_text_collapses_and_trims:
  "clean_text s = normalize_spec s
   \<and> (clean_text s = [] \<or> (\<not> py_isspace (hd (clean_text s)) \<and> \<not> py_isspace (last (clean_text s))))
   \<and> (\<forall>r w' sz ov docs.
         create_chunks file_path w = Some (r, w')
         \<and> SplitDocuments sz ov docs \<in> set (drop (length (calls w)) (calls w'))
         \<longrightarrow> docs = map (\<lambda>doc. doc\<lparr>page_content := clean_text (page_content doc)\<rparr>)
                      (files w (ascii ''resources/'' @ file_path)))
   \<and> ((\<forall>i c. fault w i c = None) \<longrightarrow>
        (\<exists>w'. create_chunks file_path w =
           Some (Inr (splitter w 400 50
                   (map (\<lambda>doc. doc\<lparr>page_content := clean_text (page_content doc)\<rparr>)
                      (files w (ascii ''resources/'' @ file_path)))), w')))"
proof -
  have eq: "(\<lambda>doc. doc\<lparr>page_content := clean_text (page_content doc)\<rparr>) = clean_page"
    by (rule ext) (simp add: clean_page_def)
  show ?thesis
    unfolding eq
    using clean_text_normalize_spec clean_text_ends create_chunks_split_argument
      create_chunks_no_fault
    by blast
qed

lemma normalize_spec_demo:
  "normalize_spec (ascii ''  Icyco \<newline> offers  vanilla '') = ascii ''Icyco offers vanilla''"
  by (simp add: normalize_spec_def collapse_run_def py_strip_def ascii_def py_isspace_def)

theorem clean_text_collapses_and_trims_witness:
  "clean_text (ascii ''  Icyco \<newline> offers  vanilla '') = ascii ''Icyco offers vanilla''
   \<and> (\<exists>w'. create_chunks (ascii ''menu.pdf'') demo_world =
         Some (Inr [\<lparr>page_content = ascii ''Icyco offers vanilla'', metadata = []\<rparr>], w'))"
proof -
  note inst = clean_text_collapses_and_trims
    [of "ascii ''  Icyco \<newline> offers  vanilla ''" "ascii ''menu.pdf''" demo_world]
  from inst have 1: "clean_text (ascii ''  Icyco \<newline> offers  vanilla '') = ascii ''Icyco offers vanilla''"
    by (simp only: normalize_spec_demo)
  have nf: "\<forall>i c. fault demo_world i c = None" by (simp add: demo_world_def)
  with inst obtain w' where "create_chunks (ascii ''menu.pdf'') demo_world =
      Some (Inr (splitter demo_world 400 50
         (map (\<lambda>doc. doc\<lparr>page_content := clean_text (page_content doc)\<rparr>)
            (files demo_world (ascii ''resources/'' @ ascii ''menu.pdf'')))), w')"
    by blast
  then have "create_chunks (ascii ''menu.pdf'') demo_world =
         Some (Inr [\<lparr>page_content = ascii ''Icyco offers vanilla'', metadata = []\<rparr>], w')"
    by (simp add: demo_world_def 1)
  with 1 show ?thesis by blast
qed

section \<open>Errors of the dependencies\<close>

text \<open>
  Claim C9. Every failure raised by an external dependency propagates unhandled through
  the functions of the module to the caller and ends the run: each function that calls a
  dependency returns, and in each of its runs an external call that raised was the last
  call made and its exception, unchanged, is the outcome of the function.
\<close>

theorem dependency_errors_propagate:
  "(returns (get_vector_store pc_index_name pdf_files)
      \<and> propagates (get_vector_store pc_index_name pdf_files))
   \<and> (returns (create_vector_store pc pc_index_name pdf_files embedding_model)
      \<and> propagates (create_vector_store pc pc_index_name pdf_files embedding_model))
   \<and> (returns (add_documents_to_vector_store vector_store pdf_files)
      \<and> propagates (add_documents_to_vector_store vector_store pdf_files))
   \<and> (returns (create_chunks file_path) \<and> propagates (create_chunks file_path))
   \<and> (returns getTextSplitter \<and> propagates getTextSplitter)
   \<and> (returns getEmbeddingModel \<and> propagates getEmbeddingModel)
   \<and> (returns getLLM \<and> propagates getLLM)
   \<and> (returns (createRagChain l vector_store prompt)
      \<and> propagates (createRagChain l vector_store prompt))"
  by (intro conjI returns_get_vector_store propagates_get_vector_store
      returns_create_vector_store propagates_create_vector_store
      returns_add_documents_to_vector_store propagates_add_documents_to_vector_store
      returns_create_chunks propagates_create_chunks returns_getTextSplitter
      propagates_getTextSplitter returns_getEmbeddingModel propagates_getEmbeddingModel
      returns_getLLM propagates_getLLM returns_createRagChain propagates_createRagChain)

lemma get_vector_store_failing_world_calls:
  "\<exists>r w'. get_vector_store (ascii ''icyco'') [ascii ''menu.pdf''] failing_world = Some (r, w')
     \<and> calls w' = [PineconeInit None, FastEmbedInit, ListIndexes,
          CreateIndex \<lparr>index_name = ascii ''icyco'', index_dimension = 384,
            index_metric = ascii ''cosine'', index_cloud = ascii ''aws'',
            index_region = ascii ''us-east-1''\<rparr>,
          DescribeIndex (ascii ''icyco'')]"
  by (simp add: get_vector_store_def create_vector_store_def Pinecone_def getEmbeddingModel_def
      FastEmbedEmbeddings_init_def list_indexes_def create_index_def bind_wait_time
      bind_getenv bind_ext bind_assoc bind_return ext_eq Let_def failing_world_def demo_world_def
      logged_def)


theorem dependency_errors_propagate_witness:
  "fault failing_world 4 (DescribeIndex (ascii ''icyco'')) = Some (ExternalError 7)
   \<and> (\<exists>w'. get_vector_store (ascii ''icyco'') [ascii ''menu.pdf''] failing_world =
          Some (Inl (ExternalError 7), w') \<and> length (calls w') = 5)"
proof -
  from get_vector_store_failing_world_calls obtain r w'
    where run: "get_vector_store (ascii ''icyco'') [ascii ''menu.pdf''] failing_world = Some (r, w')"
      and log: "calls w' = [PineconeInit None, FastEmbedInit, ListIndexes,
          CreateIndex \<lparr>index_name = ascii ''icyco'', index_dimension = 384,
            index_metric = ascii ''cosine'', index_cloud = ascii ''aws'',
            index_region = ascii ''us-east-1''\<rparr>,
          DescribeIndex (ascii ''icyco'')]"
    by blast
  have raised: "fault failing_world 4 (DescribeIndex (ascii ''icyco'')) = Some (ExternalError 7)"
    by (simp add: failing_world_def)
  have start: "calls failing_world = []"
    by (simp add: failing_world_def demo_world_def)
  from dependency_errors_propagate [of "ascii ''icyco''" "[ascii ''menu.pdf'']"]
  have "propagates (get_vector_store (ascii ''icyco'') [ascii ''menu.pdf''])"
    by blast
  with run have "unhandled failing_world r w'"
    by (simp add: propagates_def)
  then have "length (calls failing_world) \<le> 4 \<and> 4 < length (calls w')
      \<and> fault failing_world 4 (calls w' ! 4) = Some (ExternalError 7)
      \<longrightarrow> r = Inl (ExternalError 7)"
    unfolding unhandled_def by blast
  with raised have "r = Inl (ExternalError 7)"
    by (simp add: start log)
  with run raised log show ?thesis by simp
qed

section \<open>Waiting for the index\<close>

text \<open>
  Claim C2. In every run of \<^verbatim>\<open>create_vector_store\<close> in which the index is created and
  the first readiness check answers not-ready, the wait step raises \<^verbatim>\<open>AttributeError\<close>
  instead of sleeping (it has slept for no time, stored nothing and made one readiness check),
  because \<^verbatim>\<open>time\<close> is \<^verbatim>\<open>datetime.time\<close>. A run reaches ingestion, or returns a vector
  store, only when the first readiness check answered ready.
\<close>

theorem create_vector_store_not_ready_raises:
  "(fault w (length (calls w)) (CreateIndex (created_index name)) = None
      \<and> fault w (Suc (length (calls w))) (DescribeIndex name) = None
      \<and> \<not> ready w (polls w)
     \<longrightarrow> (\<exists>w'. create_vector_store pc name pdfs emb w = Some (Inl AttributeError, w')
            \<and> slept w' = slept w \<and> stored w' = stored w \<and> polls w' = Suc (polls w)
            \<and> calls w' = calls w @ [CreateIndex (created_index name), DescribeIndex name]))
   \<and> (\<forall>r w'. create_vector_store pc name pdfs emb w = Some (r, w')
          \<and> (\<exists>c \<in> set (drop (length (calls w)) (calls w')). ingestion_call c)
        \<longrightarrow> ready w (polls w))
   \<and> (\<forall>vs w'. create_vector_store pc name pdfs emb w = Some (Inr vs, w')
        \<longrightarrow> ready w (polls w))"
proof (intro conjI allI impI)
  assume "fault w (length (calls w)) (CreateIndex (created_index name)) = None
      \<and> fault w (Suc (length (calls w))) (DescribeIndex name) = None
      \<and> \<not> ready w (polls w)"
  then show "\<exists>w'. create_vector_store pc name pdfs emb w = Some (Inl AttributeError, w')
            \<and> slept w' = slept w \<and> stored w' = stored w \<and> polls w' = Suc (polls w)
            \<and> calls w' = calls w @ [CreateIndex (created_index name), DescribeIndex name]"
    by (simp add: create_vector_store_not_ready_eq Let_def)
next
  fix r w'
  assume a: "create_vector_store pc name pdfs emb w = Some (r, w')
          \<and> (\<exists>c \<in> set (drop (length (calls w)) (calls w')). ingestion_call c)"
  show "ready w (polls w)"
  proof (rule ccontr)
    assume "\<not> ready w (polls w)"
    with a have "set (drop (length (calls w)) (calls w'))
        \<subseteq> {CreateIndex (created_index name), DescribeIndex name}"
      using create_vector_store_not_ready_calls by blast
    with a show False by auto
  qed
next
  fix vs w'
  assume a: "create_vector_store pc name pdfs emb w = Some (Inr vs, w')"
  show "ready w (polls w)"
  proof (rule ccontr)
    assume "\<not> ready w (polls w)"
    with a have "\<exists>e. (Inr vs :: py_error + vector_store) = Inl e"
      using create_vector_store_not_ready_calls by blast
    then show False by simp
  qed
qed

theorem create_vector_store_not_ready_raises_witness:
  "\<not> ready never_ready_world (polls never_ready_world)
   \<and> (\<exists>w'. create_vector_store \<lparr>api_key = None\<rparr> (ascii ''icyco'') [ascii ''menu.pdf'']
             FastEmbedEmbeddings never_ready_world = Some (Inl AttributeError, w')
          \<and> slept w' = 0 \<and> stored w' = [])"
proof -
  have h: "fault never_ready_world (length (calls never_ready_world))
             (CreateIndex (created_index (ascii ''icyco''))) = None
      \<and> fault never_ready_world (Suc (length (calls never_ready_world)))
             (DescribeIndex (ascii ''icyco'')) = None
      \<and> \<not> ready never_ready_world (polls never_ready_world)"
    by (simp add: never_ready_world_def demo_world_def)
  with create_vector_store_not_ready_raises
    [of never_ready_world "ascii ''icyco''" "\<lparr>api_key = None\<rparr>" "[ascii ''menu.pdf'']"
        FastEmbedEmbeddings]
  obtain w' where "create_vector_store \<lparr>api_key = None\<rparr> (ascii ''icyco'') [ascii ''menu.pdf'']
             FastEmbedEmbeddings never_ready_world = Some (Inl AttributeError, w')"
    and "slept w' = slept never_ready_world" and "stored w' = stored never_ready_world"
    by blast
  moreover have "slept never_ready_world = 0" "stored never_ready_world = []"
    by (simp_all add: never_ready_world_def demo_world_def)
  ultimately show ?thesis using h by auto
qed

text \<open>
  Claim C1 says that the process polls once a second until the provider reports the
  index ready, for ever if it never does. With a provider that never reports ready the
  function makes one readiness check and raises \<^verbatim>\<open>AttributeError\<close> without sleeping.
\<close>

theorem create_vector_store_never_ready_stops:
  "create_vector_store \<lparr>api_key = None\<rparr> (ascii ''icyco'') [ascii ''menu.pdf'']
     FastEmbedEmbeddings never_ready_world =
   Some (Inl AttributeError,
         never_ready_world
           \<lparr>indexes := [created_index (ascii ''icyco'')], polls := 1,
            calls := [CreateIndex (created_index (ascii ''icyco'')),
                      DescribeIndex (ascii ''icyco'')]\<rparr>)"
  by (simp add: create_vector_store_eq Let_def never_ready_world_def demo_world_def logged_def)

text \<open>
  The loop itself is not at fault: were \<^verbatim>\<open>time\<close> the module of that name, the loop
  would return only for a provider that at some time reports ready or raises, and with
  the provider that never does it would not return.
\<close>

lemma wait_TimeModule_step:
  fixes wait :: "py_object \<Rightarrow> pinecone_client \<Rightarrow> py_str \<Rightarrow> world \<Rightarrow> ((py_error + unit) \<times> world) option"
  assumes IH: "\<And>tm pc name w y. wait tm pc name w = Some y \<Longrightarrow>
      tm = TimeModule \<longrightarrow> (\<exists>n. ready w n) \<or> (\<exists>i c. fault w i c \<noteq> None)"
    and run: "(case describe_index_ready pc name w of
                 None \<Rightarrow> None
               | Some (Inl e, w1) \<Rightarrow> Some (Inl e, w1)
               | Some (Inr is_ready, w1) \<Rightarrow>
                   if is_ready then Some (Inr (), w1)
                   else (case call_sleep tm 1 w1 of
                           None \<Rightarrow> None
                         | Some (Inl e, w2) \<Rightarrow> Some (Inl e, w2)
                         | Some (Inr u, w2) \<Rightarrow> wait tm pc name w2)) = Some y"
  shows "tm = TimeModule \<longrightarrow> (\<exists>n. ready w n) \<or> (\<exists>i c. fault w i c \<noteq> None)"
proof (intro impI, rule ccontr)
  assume tm: "tm = TimeModule"
  assume "\<not> ((\<exists>n. ready w n) \<or> (\<exists>i c. fault w i c \<noteq> None))"
  then have nr: "\<And>n. \<not> ready w n" and nf: "\<And>i c. fault w i c = None" by auto
  define w2 where "w2 = (logged (DescribeIndex name) w)\<lparr>polls := Suc (polls w), slept := slept w + 1\<rparr>"
  from run tm nr nf have "wait TimeModule pc name w2 = Some y"
    by (simp add: describe_index_ready_def ext_eq call_sleep_def getattr_sleep_def w2_def)
  from IH [OF this] have "(\<exists>n. ready w2 n) \<or> (\<exists>i c. fault w2 i c \<noteq> None)" by simp
  with nr nf show False by (simp add: w2_def)
qed

lemma wait_until_ready_TimeModule_returns:
  assumes "wait_until_ready tm pc name w = Some y"
  shows "tm = TimeModule \<longrightarrow> (\<exists>n. ready w n) \<or> (\<exists>i c. fault w i c \<noteq> None)"
  by (rule wait_until_ready.raw_induct
      [where P = "\<lambda>tm pc name w y. tm = TimeModule \<longrightarrow>
         (\<exists>n. ready w n) \<or> (\<exists>i c. fault w i c \<noteq> None)", OF _ assms])
    (rule wait_TimeModule_step)

lemma wait_until_ready_TimeModule_never_ready:
  "wait_until_ready TimeModule pc name never_ready_world = None"
proof (cases "wait_until_ready TimeModule pc name never_ready_world")
  case None
  then show ?thesis .
next
  case (Some y)
  from wait_until_ready_TimeModule_returns [OF this]
  show ?thesis by (simp add: never_ready_world_def demo_world_def)
qed

section \<open>The index is created once\<close>

















section \<open>The prompt\<close>

subsection \<open>The template and the formatter\<close>

lemma brace_free_append: "brace_free (s @ t) = (brace_free s \<and> brace_free t)"
  by (simp add: brace_free_def)

lemma brace_free_concat: "brace_free (concat ss) = list_all brace_free ss"
  by (induction ss) (simp_all add: brace_free_def)

lemma of_char_braces:
  "(of_char c :: nat) = 123 \<longleftrightarrow> c = CHR ''{''"
  "(of_char c :: nat) = 125 \<longleftrightarrow> c = CHR ''}''"
proof -
  have "(of_char (CHR ''{'') :: nat) = 123" "(of_char (CHR ''}'') :: nat) = 125"
    by simp_all
  then show "(of_char c :: nat) = 123 \<longleftrightarrow> c = CHR ''{''"
    "(of_char c :: nat) = 125 \<longleftrightarrow> c = CHR ''}''"
    using of_char_eq_iff [of c "CHR ''{''", where ?'a = nat]
      of_char_eq_iff [of c "CHR ''}''", where ?'a = nat]
    by simp_all
qed

lemma brace_free_ascii:
  "brace_free (ascii s) = list_all (\<lambda>c. c \<noteq> CHR ''{'' \<and> c \<noteq> CHR ''}'') s"
  by (simp add: brace_free_def ascii_def list_all_iff of_char_braces)

lemma brace_free_Nil: "brace_free []"
  by (simp add: brace_free_def)

lemma brace_free_Cons: "brace_free (c # s) = (c \<noteq> 123 \<and> c \<noteq> 125 \<and> brace_free s)"
  by (simp add: brace_free_def)

lemmas brace_free_simps =
  brace_free_concat brace_free_append brace_free_ascii brace_free_Nil brace_free_Cons

lemma brace_free_template_instructions: "brace_free template_instructions"
  unfolding template_instructions_def
  by (simp add: brace_free_simps)


lemma template_head_split:
  "template_head = before_context @ 123 # ascii ''context'' @ 125 # after_context"
proof -
  have "ascii ''            {context}\<newline>'' @ ascii ''            \<newline>'' @ ascii ''            ''
      = ascii ''            '' @ 123 # ascii ''context'' @ 125 # after_context"
    by (simp add: ascii_def after_context_def)
  then show ?thesis
    by (simp add: template_head_def before_context_def)
qed

lemma template_tail_split:
  "template_tail = before_question @ 123 # ascii ''question'' @ 125 # after_question"
  by (simp add: template_tail_def before_question_def after_question_def ascii_def)

lemma brace_free_parts:
  "brace_free before_context" "brace_free after_context"
  "brace_free before_question" "brace_free after_question"
  by (simp_all add: before_context_def after_context_def before_question_def
      after_question_def brace_free_template_instructions brace_free_append brace_free_ascii)

lemma brace_free_f_chat_history: "brace_free (f_chat_history h) = brace_free h"
  by (simp add: f_chat_history_def brace_free_append brace_free_ascii)

lemma py_format_plain:
  "brace_free s \<Longrightarrow> py_format kw (s @ rest) = map_sum id ((@) s) (py_format kw rest)"
proof (induction s)
  case Nil
  show ?case by (cases "py_format kw rest") simp_all
next
  case (Cons c s)
  then have "c \<noteq> 123" "c \<noteq> 125" "brace_free s" by (simp_all add: brace_free_Cons)
  with Cons.IH show ?case by (cases "py_format kw rest") simp_all
qed

lemma plain_field_no_brace:
  assumes "plain_field f"
  shows "f \<noteq> []" and "list_all (\<lambda>c. c \<noteq> 123 \<and> c \<noteq> 125) f"
proof -
  from assms show "f \<noteq> []" by (simp add: plain_field_def)
  have "c \<noteq> 123 \<and> c \<noteq> 125" if "c \<notin> set (ascii ''!:.[]{}'')" for c :: nat
    using that by (simp add: ascii_def)
  with assms show "list_all (\<lambda>c. c \<noteq> 123 \<and> c \<noteq> 125) f"
    by (simp add: plain_field_def list_all_iff)
qed

lemma takeWhile_until: "list_all (\<lambda>c. c \<noteq> x) f \<Longrightarrow> takeWhile (\<lambda>c. c \<noteq> x) (f @ x # rest) = f"
  by (induction f) simp_all

lemma dropWhile_until: "list_all (\<lambda>c. c \<noteq> x) f \<Longrightarrow> dropWhile (\<lambda>c. c \<noteq> x) (f @ x # rest) = x # rest"
  by (induction f) simp_all

lemma py_format_field:
  assumes pf: "plain_field f" and kw: "map_of kw f = Some v"
  shows "py_format kw (123 # f @ 125 # rest) = map_sum id ((@) v) (py_format kw rest)"
proof -
  from pf have ne: "f \<noteq> []" and nb: "list_all (\<lambda>c. c \<noteq> 123 \<and> c \<noteq> 125) f"
    by (rule plain_field_no_brace)+
  from nb have n125: "list_all (\<lambda>c. c \<noteq> 125) f" by (simp add: list_all_iff)
  from ne obtain d ds where f: "f = d # ds" by (cases f) auto
  with nb have d: "d \<noteq> 123" by simp
  have tw: "takeWhile (\<lambda>x. x \<noteq> 125) (f @ 125 # rest) = f"
    using n125 by (rule takeWhile_until)
  have dw: "dropWhile (\<lambda>x. x \<noteq> 125) (f @ 125 # rest) = 125 # rest"
    using n125 by (rule dropWhile_until)
  have "py_format kw (123 # (d # ds) @ 125 # rest) =
      (let field = takeWhile (\<lambda>x. x \<noteq> 125) ((d # ds) @ 125 # rest);
           rest' = dropWhile (\<lambda>x. x \<noteq> 125) ((d # ds) @ 125 # rest)
       in if rest' = [] then Inl ValueError
          else if \<not> plain_field field then Inl (UnsupportedField field)
          else (case map_of kw field of
                  None \<Rightarrow> Inl (KeyError field)
                | Some v \<Rightarrow> map_sum id ((@) v) (py_format kw (tl rest'))))"
    using d by (simp del: takeWhile.simps dropWhile.simps takeWhile_append dropWhile_append
        add: Let_def)
  then show ?thesis
    using pf kw by (simp only: f [symmetric] tw dw Let_def) simp
qed


lemma template_fields_plain:
  "brace_free s \<Longrightarrow> template_fields (s @ rest) = template_fields rest"
proof (induction s)
  case Nil
  show ?case by simp
next
  case (Cons c s)
  then have "c \<noteq> 123" "c \<noteq> 125" "brace_free s" by (simp_all add: brace_free_Cons)
  with Cons.IH show ?case by simp
qed

lemma template_fields_field:
  assumes pf: "plain_field f"
  shows "template_fields (123 # f @ 125 # rest) = map_sum id ((#) f) (template_fields rest)"
proof -
  from pf have ne: "f \<noteq> []" and nb: "list_all (\<lambda>c. c \<noteq> 123 \<and> c \<noteq> 125) f"
    by (rule plain_field_no_brace)+
  from nb have n125: "list_all (\<lambda>c. c \<noteq> 125) f" by (simp add: list_all_iff)
  from ne obtain d ds where f: "f = d # ds" by (cases f) auto
  with nb have d: "d \<noteq> 123" by simp
  have tw: "takeWhile (\<lambda>x. x \<noteq> 125) (f @ 125 # rest) = f"
    using n125 by (rule takeWhile_until)
  have dw: "dropWhile (\<lambda>x. x \<noteq> 125) (f @ 125 # rest) = 125 # rest"
    using n125 by (rule dropWhile_until)
  have "template_fields (123 # (d # ds) @ 125 # rest) =
      (let field = takeWhile (\<lambda>x. x \<noteq> 125) ((d # ds) @ 125 # rest);
           rest' = dropWhile (\<lambda>x. x \<noteq> 125) ((d # ds) @ 125 # rest)
       in if rest' = [] then Inl ValueError
          else if \<not> plain_field field then Inl (UnsupportedField field)
          else map_sum id ((#) field) (template_fields (tl rest')))"
    using d by (simp del: takeWhile.simps dropWhile.simps takeWhile_append dropWhile_append
        add: Let_def)
  then show ?thesis
    using pf by (simp only: f [symmetric] tw dw Let_def) simp
qed

lemma plain_field_names:
  "plain_field (ascii ''context'')" "plain_field (ascii ''question'')"
  "plain_field (ascii ''name'')" "plain_field (ascii ''chat_history'')"
  by (simp_all add: plain_field_def ascii_def)

text \<open>The first literal, whatever follows it.\<close>

lemma template_fields_head:
  "template_fields (template_head @ rest) =
     map_sum id ((#) (ascii ''context'')) (template_fields (after_context @ rest))"
proof -
  have "template_fields (template_head @ rest) =
      template_fields (before_context @ 123 # ascii ''context'' @ 125 # (after_context @ rest))"
    by (simp add: template_head_split)
  then show ?thesis
    by (simp only: template_fields_plain [OF brace_free_parts(1)]
        template_fields_field [OF plain_field_names(1)])
qed

lemma py_format_head:
  assumes "map_of kw (ascii ''context'') = Some c"
  shows "py_format kw (template_head @ rest) =
     map_sum id ((@) (before_context @ c)) (py_format kw (after_context @ rest))"
proof -
  have "py_format kw (template_head @ rest) =
      py_format kw (before_context @ 123 # ascii ''context'' @ 125 # (after_context @ rest))"
    by (simp add: template_head_split)
  also have "\<dots> = map_sum id ((@) before_context)
      (map_sum id ((@) c) (py_format kw (after_context @ rest)))"
    by (simp only: py_format_plain [OF brace_free_parts(1)]
        py_format_field [OF plain_field_names(1) assms])
  also have "\<dots> = map_sum id ((@) (before_context @ c)) (py_format kw (after_context @ rest))"
    by (cases "py_format kw (after_context @ rest)") simp_all
  finally show ?thesis .
qed

text \<open>The third literal.\<close>

lemma template_fields_tail: "template_fields template_tail = Inr [ascii ''question'']"
proof -
  have "template_fields template_tail =
      template_fields (before_question @ 123 # ascii ''question'' @ 125 # (after_question @ []))"
    by (simp add: template_tail_split)
  then show ?thesis
    by (simp only: template_fields_plain [OF brace_free_parts(3)]
        template_fields_field [OF plain_field_names(2)]
        template_fields_plain [OF brace_free_parts(4)] template_fields.simps(1)
        map_sum.simps id_apply)
qed

lemma py_format_tail:
  assumes "map_of kw (ascii ''question'') = Some q"
  shows "py_format kw template_tail = Inr (before_question @ q @ after_question)"
proof -
  have "py_format kw template_tail =
      py_format kw (before_question @ 123 # ascii ''question'' @ 125 # (after_question @ []))"
    by (simp add: template_tail_split)
  also have "\<dots> = Inr (before_question @ q @ after_question @ [])"
    by (simp only: py_format_plain [OF brace_free_parts(3)]
        py_format_field [OF plain_field_names(2) assms]
        py_format_plain [OF brace_free_parts(4)] py_format.simps(1)
        map_sum.simps id_apply)
  finally show ?thesis by simp
qed

lemma sorted_names:
  "sort (remdups [ascii ''context'', ascii ''question'']) = [ascii ''context'', ascii ''question'']"
  "sort (remdups [ascii ''context'', ascii ''name'', ascii ''question'']) =
     [ascii ''context'', ascii ''name'', ascii ''question'']"
  "sort (remdups [ascii ''context'', ascii ''chat_history'', ascii ''question'']) =
     [ascii ''chat_history'', ascii ''context'', ascii ''question'']"
  by (simp_all add: ascii_def)


lemma brace_free_indent: "brace_free (ascii ''\<newline>                '')"
  by (simp add: brace_free_ascii)

text \<open>A chat history without braces.\<close>

lemma template_fields_brace_free:
  assumes "brace_free h"
  shows "template_fields (template_head @ f_chat_history h @ template_tail) =
     Inr [ascii ''context'', ascii ''question'']"
proof -
  have mid: "brace_free (after_context @ f_chat_history h)"
    using assms by (simp add: brace_free_append brace_free_parts brace_free_f_chat_history)
  have "template_fields ((after_context @ f_chat_history h) @ template_tail) =
      Inr [ascii ''question'']"
    by (simp only: template_fields_plain [OF mid] template_fields_tail)
  then show ?thesis by (simp add: template_fields_head)
qed

lemma getPromptTemplate_brace_free:
  assumes "brace_free h"
  shows "getPromptTemplate h =
     Inr \<lparr>template = template_head @ f_chat_history h @ template_tail,
          input_variables = [ascii ''context'', ascii ''question'']\<rparr>"
  unfolding getPromptTemplate_def PromptTemplate_def template_fields_brace_free [OF assms]
  by (simp only: sum.case sorted_names)

lemma py_format_brace_free:
  assumes bf: "brace_free h"
    and c: "map_of kw (ascii ''context'') = Some c"
    and q: "map_of kw (ascii ''question'') = Some q"
  shows "py_format kw (template_head @ f_chat_history h @ template_tail) =
     Inr (before_context @ c @ after_context @ f_chat_history h @ before_question @ q
          @ after_question)"
proof -
  have mid: "brace_free (after_context @ f_chat_history h)"
    using bf by (simp add: brace_free_append brace_free_parts brace_free_f_chat_history)
  have "py_format kw ((after_context @ f_chat_history h) @ template_tail) =
      Inr ((after_context @ f_chat_history h) @ before_question @ q @ after_question)"
    by (simp only: py_format_plain [OF mid] py_format_tail [OF q] map_sum.simps id_apply)
  then show ?thesis by (simp add: py_format_head [OF c])
qed

text \<open>A chat history that is one field, \<^verbatim>\<open>{f}\<close>.\<close>

lemma template_fields_one_field:
  assumes "plain_field f"
  shows "template_fields (template_head @ f_chat_history (123 # f @ [125]) @ template_tail) =
     Inr [ascii ''context'', f, ascii ''question'']"
proof -
  let ?ind = "ascii ''\<newline>                ''"
  have pre: "brace_free (after_context @ ?ind)"
    by (simp add: brace_free_append brace_free_parts brace_free_indent)
  have "template_fields ((after_context @ ?ind) @ 123 # f @ 125 # (?ind @ template_tail)) =
      Inr [f, ascii ''question'']"
    by (simp only: template_fields_plain [OF pre] template_fields_field [OF assms]
        template_fields_plain [OF brace_free_indent] template_fields_tail map_sum.simps id_apply)
  then show ?thesis by (simp add: template_fields_head f_chat_history_def)
qed

lemma py_format_one_field:
  assumes pf: "plain_field f"
    and c: "map_of kw (ascii ''context'') = Some c"
    and q: "map_of kw (ascii ''question'') = Some q"
  shows "py_format kw (template_head @ f_chat_history (123 # f @ [125]) @ template_tail) =
     (case map_of kw f of
        None \<Rightarrow> Inl (KeyError f)
      | Some v \<Rightarrow>
          Inr (before_context @ c @ after_context @ ascii ''\<newline>                '' @ v
               @ ascii ''\<newline>                '' @ before_question @ q @ after_question))"
proof -
  let ?ind = "ascii ''\<newline>                ''"
  have pre: "brace_free (after_context @ ?ind)"
    by (simp add: brace_free_append brace_free_parts brace_free_indent)
  have field: "py_format kw (123 # f @ 125 # (?ind @ template_tail)) =
      (case map_of kw f of
         None \<Rightarrow> Inl (KeyError f)
       | Some v \<Rightarrow> Inr (v @ ?ind @ before_question @ q @ after_question))"
  proof (cases "map_of kw f")
    case None
    from pf have ne: "f \<noteq> []" and nb: "list_all (\<lambda>c. c \<noteq> 123 \<and> c \<noteq> 125) f"
      by (rule plain_field_no_brace)+
    from nb have n125: "list_all (\<lambda>c. c \<noteq> 125) f" by (simp add: list_all_iff)
    from ne obtain d ds where f: "f = d # ds" by (cases f) auto
    with nb have d: "d \<noteq> 123" by simp
    have tw: "takeWhile (\<lambda>x. x \<noteq> 125) ((d # ds) @ 125 # (?ind @ template_tail)) = d # ds"
      using n125 unfolding f by (rule takeWhile_until)
    have dw: "dropWhile (\<lambda>x. x \<noteq> 125) ((d # ds) @ 125 # (?ind @ template_tail))
        = 125 # (?ind @ template_tail)"
      using n125 unfolding f by (rule dropWhile_until)
    have "py_format kw (123 # (d # ds) @ 125 # (?ind @ template_tail)) = Inl (KeyError (d # ds))"
      using d pf None unfolding f
      by (simp del: takeWhile.simps dropWhile.simps takeWhile_append dropWhile_append
          add: Let_def tw [simplified] dw [simplified])
    with None show ?thesis by (simp add: f)
  next
    case (Some v)
    have "py_format kw (123 # f @ 125 # (?ind @ template_tail)) =
        Inr (v @ ?ind @ before_question @ q @ after_question)"
      by (simp only: py_format_field [OF pf Some] py_format_plain [OF brace_free_indent]
          py_format_tail [OF q] map_sum.simps id_apply)
    with Some show ?thesis by simp
  qed
  have "py_format kw (template_head @ f_chat_history (123 # f @ [125]) @ template_tail) =
      map_sum id ((@) (before_context @ c))
        (py_format kw ((after_context @ ?ind) @ 123 # f @ 125 # (?ind @ template_tail)))"
    by (simp add: f_chat_history_def py_format_head [OF c] del: py_format.simps)
  also have "\<dots> = map_sum id ((@) (before_context @ c))
      (map_sum id ((@) (after_context @ ?ind))
         (py_format kw (123 # f @ 125 # (?ind @ template_tail))))"
    by (simp only: py_format_plain [OF pre])
  also have "\<dots> = (case map_of kw f of
        None \<Rightarrow> Inl (KeyError f)
      | Some v \<Rightarrow>
          Inr (before_context @ c @ after_context @ ?ind @ v @ ?ind @ before_question @ q
               @ after_question))"
    unfolding field by (cases "map_of kw f") simp_all
  finally show ?thesis .
qed


lemma brace_histories:
  "ascii ''}'' = [125]"
  "ascii ''{name}'' = 123 # ascii ''name'' @ [125]"
  "ascii ''{chat_history}'' = 123 # ascii ''chat_history'' @ [125]"
  by (simp_all add: ascii_def)

lemma getPromptTemplate_one_field:
  assumes "plain_field f"
  shows "getPromptTemplate (123 # f @ [125]) =
     Inr \<lparr>template = template_head @ f_chat_history (123 # f @ [125]) @ template_tail,
          input_variables = sort (remdups [ascii ''context'', f, ascii ''question''])\<rparr>"
  unfolding getPromptTemplate_def PromptTemplate_def template_fields_one_field [OF assms]
  by (simp only: sum.case)

lemma getPromptTemplate_lone_brace: "getPromptTemplate [125] = Inl ValueError"
proof -
  let ?ind = "ascii ''\<newline>                ''"
  have pre: "brace_free (after_context @ ?ind)"
    by (simp add: brace_free_append brace_free_parts brace_free_indent)
  have "template_fields (125 # (?ind @ template_tail)) = Inl ValueError"
    by (simp add: ascii_def)
  then have "template_fields ((after_context @ ?ind) @ 125 # (?ind @ template_tail)) = Inl ValueError"
    by (simp only: template_fields_plain [OF pre])
  then have "template_fields (template_head @ f_chat_history [125] @ template_tail) = Inl ValueError"
    by (simp add: template_fields_head f_chat_history_def)
  then show ?thesis
    by (simp add: getPromptTemplate_def PromptTemplate_def)
qed

subsection \<open>What the prompt contains\<close>

text \<open>
  For a chat history without braces the template is built, the prompt is assembled, and
  it contains the context, the chat history and the question, in this order.
\<close>

lemma prompt_contains_all_in_order:
  assumes "brace_free h"
  shows "\<exists>t a b d e. getPromptTemplate h = Inr t
     \<and> format_prompt t [(ascii ''context'', c), (ascii ''question'', q)] =
         Inr (a @ c @ b @ h @ d @ q @ e)"
proof -
  let ?kw = "[(ascii ''context'', c), (ascii ''question'', q)]"
  let ?t = "\<lparr>template = template_head @ f_chat_history h @ template_tail,
             input_variables = [ascii ''context'', ascii ''question'']\<rparr>"
  have kw: "map_of ?kw (ascii ''context'') = Some c" "map_of ?kw (ascii ''question'') = Some q"
    by (simp_all add: ascii_def)
  have 1: "getPromptTemplate h = Inr ?t"
    by (rule getPromptTemplate_brace_free [OF assms])
  from py_format_brace_free [OF assms kw]
  have "py_format ?kw (template_head @ f_chat_history h @ template_tail) =
      Inr (before_context @ c @ (after_context @ ascii ''\<newline>                '') @ h
           @ (ascii ''\<newline>                '' @ before_question) @ q @ after_question)"
    by (simp add: f_chat_history_def)
  then have 2: "format_prompt ?t ?kw =
      Inr (before_context @ c @ (after_context @ ascii ''\<newline>                '') @ h
           @ (ascii ''\<newline>                '' @ before_question) @ q @ after_question)"
    by (simp only: format_prompt_def prompt_template.simps)
  show ?thesis
    by (intro exI conjI) (rule 1, rule 2)
qed

text \<open>
  For such a chat history the template has the two input variables that the code
  declares, its text holds the chat history between the two literals, and every context
  and question are formatted around it, whatever else is given with them.
\<close>

lemma chat_history_constant_when_brace_free:
  assumes "brace_free h"
  shows "\<exists>t. getPromptTemplate h = Inr t
     \<and> input_variables t = [ascii ''context'', ascii ''question'']
     \<and> template t = template_head @ ascii ''\<newline>                '' @ h
          @ ascii ''\<newline>                '' @ template_tail
     \<and> (\<forall>c q extra.
          format_prompt t ((ascii ''context'', c) # (ascii ''question'', q) # extra) =
            Inr (before_context @ c @ after_context @ ascii ''\<newline>                '' @ h
                 @ ascii ''\<newline>                '' @ before_question @ q @ after_question))"
proof -
  let ?t = "\<lparr>template = template_head @ f_chat_history h @ template_tail,
             input_variables = [ascii ''context'', ascii ''question'']\<rparr>"
  have 1: "getPromptTemplate h = Inr ?t"
    by (rule getPromptTemplate_brace_free [OF assms])
  have 2: "input_variables ?t = [ascii ''context'', ascii ''question'']"
    by (simp only: prompt_template.simps)
  have 3: "template ?t = template_head @ ascii ''\<newline>                '' @ h
          @ ascii ''\<newline>                '' @ template_tail"
    by (simp only: prompt_template.simps f_chat_history_def append_assoc)
  have 4: "format_prompt ?t ((ascii ''context'', c) # (ascii ''question'', q) # extra) =
      Inr (before_context @ c @ after_context @ ascii ''\<newline>                '' @ h
           @ ascii ''\<newline>                '' @ before_question @ q @ after_question)"
    for c q extra
  proof -
    let ?kw = "(ascii ''context'', c) # (ascii ''question'', q) # extra"
    have kw: "map_of ?kw (ascii ''context'') = Some c" "map_of ?kw (ascii ''question'') = Some q"
      by (simp_all add: ascii_def)
    from py_format_brace_free [OF assms kw]
    have "py_format ?kw (template_head @ f_chat_history h @ template_tail) =
      Inr (before_context @ c @ after_context @ ascii ''\<newline>                '' @ h
           @ ascii ''\<newline>                '' @ before_question @ q @ after_question)"
      by (simp only: f_chat_history_def append_assoc)
    then show ?thesis
      by (simp only: format_prompt_def prompt_template.simps)
  qed
  show ?thesis
    by (intro exI conjI allI) (rule 1, rule 2, rule 3, rule 4)
qed

text \<open>
  Claim C7 says that the prompt contains the context, the chat history and the question
  for every chat history. The chat history is spliced into the template's text before
  the template is built, so its braces are read as template syntax: with the chat
  history \<^verbatim>\<open>}\<close> the constructor raises \<^verbatim>\<open>ValueError\<close>, and with \<^verbatim>\<open>{name}\<close> formatting
  raises \<^verbatim>\<open>KeyError\<close>; no prompt is assembled, whatever the context and the question.
\<close>

theorem format_prompt_brace_in_history:
  "getPromptTemplate (ascii ''}'') = Inl ValueError
   \<and> (\<exists>t. getPromptTemplate (ascii ''{name}'') = Inr t
         \<and> format_prompt t [(ascii ''context'', context), (ascii ''question'', question)] =
             Inl (KeyError (ascii ''name'')))"
proof -
  let ?kw = "[(ascii ''context'', context), (ascii ''question'', question)]"
  let ?text = "template_head @ f_chat_history (123 # ascii ''name'' @ [125]) @ template_tail"
  let ?t = "\<lparr>template = ?text,
             input_variables = sort (remdups [ascii ''context'', ascii ''name'', ascii ''question''])\<rparr>"
  have kw: "map_of ?kw (ascii ''context'') = Some context"
    "map_of ?kw (ascii ''question'') = Some question" "map_of ?kw (ascii ''name'') = None"
    by (simp_all add: ascii_def)
  have 1: "getPromptTemplate (ascii ''}'') = Inl ValueError"
    by (simp only: brace_histories getPromptTemplate_lone_brace)
  have 2: "getPromptTemplate (ascii ''{name}'') = Inr ?t"
    by (simp only: brace_histories getPromptTemplate_one_field [OF plain_field_names(3)])
  have "py_format ?kw ?text = Inl (KeyError (ascii ''name''))"
    by (simp only: py_format_one_field [OF plain_field_names(3) kw(1) kw(2)] kw(3) option.case)
  then have 3: "format_prompt ?t ?kw = Inl (KeyError (ascii ''name''))"
    by (simp only: format_prompt_def prompt_template.simps)
  show ?thesis
    by (intro exI conjI) (rule 1, rule 2, rule 3)
qed

text \<open>
  Claim C10 says that the template declares exactly the two input variables context and
  question, and that the chat history is a constant of the template. With the chat
  history \<^verbatim>\<open>{name}\<close> the template has three input variables; with \<^verbatim>\<open>{chat_history}\<close>
  it has the input variable \<^verbatim>\<open>chat_history\<close>, and the prompt holds the chat history that
  is supplied with the question, not the one the template was built from.
\<close>

theorem chat_history_braces_become_inputs:
  "(\<exists>t. getPromptTemplate (ascii ''{name}'') = Inr t
       \<and> input_variables t = [ascii ''context'', ascii ''name'', ascii ''question''])
   \<and> (\<exists>t. getPromptTemplate (ascii ''{chat_history}'') = Inr t
       \<and> input_variables t = [ascii ''chat_history'', ascii ''context'', ascii ''question'']
       \<and> format_prompt t
            [(ascii ''context'', context), (ascii ''question'', question),
             (ascii ''chat_history'', later)] =
           Inr (before_context @ context @ after_context @ ascii ''\<newline>                ''
                @ later @ ascii ''\<newline>                '' @ before_question @ question
                @ after_question))"
proof -
  let ?kw = "[(ascii ''context'', context), (ascii ''question'', question),
              (ascii ''chat_history'', later)]"
  let ?text1 = "template_head @ f_chat_history (123 # ascii ''name'' @ [125]) @ template_tail"
  let ?t1 = "\<lparr>template = ?text1,
      input_variables = sort (remdups [ascii ''context'', ascii ''name'', ascii ''question''])\<rparr>"
  let ?text2 = "template_head @ f_chat_history (123 # ascii ''chat_history'' @ [125])
       @ template_tail"
  let ?t2 = "\<lparr>template = ?text2,
      input_variables =
        sort (remdups [ascii ''context'', ascii ''chat_history'', ascii ''question''])\<rparr>"
  have kw: "map_of ?kw (ascii ''context'') = Some context"
    "map_of ?kw (ascii ''question'') = Some question"
    "map_of ?kw (ascii ''chat_history'') = Some later"
    by (simp_all add: ascii_def)
  have 1: "getPromptTemplate (ascii ''{name}'') = Inr ?t1"
    by (simp only: brace_histories getPromptTemplate_one_field [OF plain_field_names(3)])
  have 2: "input_variables ?t1 = [ascii ''context'', ascii ''name'', ascii ''question'']"
    by (simp only: prompt_template.simps sorted_names)
  have 3: "getPromptTemplate (ascii ''{chat_history}'') = Inr ?t2"
    by (simp only: brace_histories getPromptTemplate_one_field [OF plain_field_names(4)])
  have 4: "input_variables ?t2 = [ascii ''chat_history'', ascii ''context'', ascii ''question'']"
    by (simp only: prompt_template.simps sorted_names)
  have "py_format ?kw ?text2 =
      Inr (before_context @ context @ after_context @ ascii ''\<newline>                ''
           @ later @ ascii ''\<newline>                '' @ before_question @ question
           @ after_question)"
    by (simp only: py_format_one_field [OF plain_field_names(4) kw(1) kw(2)] kw(3) option.case)
  then have 5: "format_prompt ?t2 ?kw =
      Inr (before_context @ context @ after_context @ ascii ''\<newline>                ''
           @ later @ ascii ''\<newline>                '' @ before_question @ question
           @ after_question)"
    by (simp only: format_prompt_def prompt_template.simps)
  show ?thesis
    by (intro exI conjI) (rule 1, rule 2, rule 3, rule 4, rule 5)
qed

section \<open>The chain\<close>

subsection \<open>Building the chain and asking one question\<close>

lemma createRagChain_eq:
  "createRagChain l \<lparr>store_index = Index name, store_embedding = emb\<rparr> prompt w =
     (let c1 = AsRetriever name 3; c2 = ChainInit; n = length (calls w);
          w1 = logged c1 w; w2 = logged c2 w1
      in case fault w n c1 of
           Some e \<Rightarrow> Some (Inl e, w1)
         | None \<Rightarrow>
            (case fault w (Suc n) c2 of
               Some e \<Rightarrow> Some (Inl e, w2)
             | None \<Rightarrow> Some (Inr (rag_chain l name prompt), w2)))"
  by (simp add: createRagChain_def as_retriever_def RetrievalQA_from_chain_type_def bind_ext
      ext_eq rag_chain_def Let_def split: option.splits)

lemma createRagChain_result:
  assumes "createRagChain l \<lparr>store_index = Index name, store_embedding = emb\<rparr> prompt w
             = Some (Inr chain, w1)"
  shows "chain = rag_chain l name prompt"
  using assms by (simp add: createRagChain_eq Let_def split: option.splits)

lemma index_chunks_logged [simp]: "index_chunks name (logged c w) = index_chunks name w"
  by (simp add: index_chunks_def)

lemma nearest_first_logged [simp]:
  "nearest_first name question (logged c w) = nearest_first name question w"
  by (simp add: nearest_first_def)

lemma qa_chain_invoke_eq:
  "qa_chain_invoke (rag_chain l name prompt) question w =
     (let c1 = SimilaritySearch name 3 question; n = length (calls w); w1 = logged c1 w;
          docs = take 3 (nearest_first name question w)
      in case fault w n c1 of
           Some e \<Rightarrow> Some (Inl e, w1)
         | None \<Rightarrow>
            (case format_prompt prompt
                    [(ascii ''context'', join_texts (map page_content docs)),
                     (ascii ''question'', question)] of
               Inl e \<Rightarrow> Some (Inl e, w1)
             | Inr text \<Rightarrow>
                 (case fault w (Suc n) (LLMInvoke text) of
                    Some e \<Rightarrow> Some (Inl e, logged (LLMInvoke text) w1)
                  | None \<Rightarrow>
                      Some (Inr \<lparr>result = llm_answer w text, source_documents = Some docs\<rparr>,
                            logged (LLMInvoke text) w1))))"
  by (simp add: qa_chain_invoke_def similarity_search_def llm_invoke_def raise_or_return_def
      rag_chain_def bind_ext bind_io_def ext_eq return_io_def Let_def
      split: option.splits sum.splits)

lemma set_nearest_first: "set (nearest_first name question w) = set (index_chunks name w)"
  by (simp add: nearest_first_def)

lemma length_nearest_first: "length (nearest_first name question w) = length (index_chunks name w)"
  by (simp add: nearest_first_def)

lemma sorted_nearest_first:
  "sorted (map (\<lambda>chunk. - score w question chunk) (nearest_first name question w))"
  by (simp add: nearest_first_def sorted_sort_key)

lemma sorted_take_drop:
  assumes "sorted (map f xs)" and "x \<in> set (take k xs)" and "y \<in> set (drop k xs)"
  shows "f x \<le> f y"
proof -
  have "map f xs = map f (take k xs) @ map f (drop k xs)"
    by (simp flip: map_append)
  with assms(1) have "sorted (map f (take k xs) @ map f (drop k xs))" by simp
  then have "\<forall>a\<in>set (map f (take k xs)). \<forall>b\<in>set (map f (drop k xs)). a \<le> b"
    by (simp add: sorted_append)
  with assms(2,3) show ?thesis by simp
qed

lemma nearest_first_top:
  assumes "d \<in> set (take k (nearest_first name question w))"
    and "d' \<in> set (drop k (nearest_first name question w))"
  shows "score w question d' \<le> score w question d"
  using sorted_take_drop [OF sorted_nearest_first assms] by simp

subsection \<open>The example worlds\<close>

lemma demo_world_fault: "fault demo_world n c = None"
  by (simp add: demo_world_def)

lemma stocked_world_simps:
  "fault stocked_world n c = None"
  "llm_answer stocked_world p = ascii ''Vanilla.''"
  "nearest_first (ascii ''icyco'') question stocked_world
     = [page ''Vanilla and chocolate'', page ''Strawberry'', page ''Cones'', page ''Open'']"
  by (simp_all add: stocked_world_def demo_world_def nearest_first_def index_chunks_def
      page_def ascii_def)

lemma one_chunk_world_simps:
  "fault one_chunk_world n c = None"
  "llm_answer one_chunk_world p = ascii ''Vanilla.''"
  "nearest_first (ascii ''icyco'') question one_chunk_world = [page ''Icyco offers vanilla'']"
  by (simp_all add: one_chunk_world_def demo_world_def nearest_first_def index_chunks_def)

lemma demo_prompt_filled:
  "format_prompt demo_prompt [(ascii ''context'', context), (ascii ''question'', question)]
     = Inr (context @ ascii '' '' @ question)"
proof -
  let ?kw = "[(ascii ''context'', context), (ascii ''question'', question)]"
  have kw: "map_of ?kw (ascii ''context'') = Some context"
    "map_of ?kw (ascii ''question'') = Some question"
    by (simp_all add: ascii_def)
  have t: "ascii ''{context} {question}''
      = 123 # ascii ''context'' @ 125 # (ascii '' '' @ (123 # ascii ''question'' @ 125 # []))"
    by (simp add: ascii_def)
  have 3: "py_format ?kw (123 # ascii ''question'' @ 125 # []) = Inr question"
    using py_format_field [OF plain_field_names(2) kw(2), of "[]"] by simp
  have 2: "py_format ?kw (ascii '' '' @ (123 # ascii ''question'' @ 125 # []))
      = Inr (ascii '' '' @ question)"
    using py_format_plain [of "ascii '' ''" ?kw "123 # ascii ''question'' @ 125 # []"]
    by (simp only: 3 brace_free_ascii map_sum.simps) (simp add: brace_free_simps)
  have 1: "py_format ?kw (ascii ''{context} {question}'') = Inr (context @ ascii '' '' @ question)"
    unfolding t
    using py_format_field [OF plain_field_names(1) kw(1),
        of "ascii '' '' @ (123 # ascii ''question'' @ 125 # [])"]
    by (simp only: 2 map_sum.simps)
  then show ?thesis
    by (simp only: format_prompt_def demo_prompt_def prompt_template.simps)
qed

subsection \<open>Answer and sources\<close>

text \<open>
  Claim C8, amended. The chain built by \<^verbatim>\<open>createRagChain\<close> searches with k = 3 and
  returns its source documents. A question asked through it always comes back, with a
  response or an error. In every response the source documents are the first 3 chunks of
  the index in the order of decreasing similarity to the question: all chunks of the
  index when it holds fewer than 3, and otherwise 3 chunks none of which is less similar
  to the question than a chunk left out. The answer of the response is what the LLM
  gives for the template filled with the texts of these chunks and the question. When no
  call raises and the template can be filled, there is such a response.
\<close>

theorem rag_chain_answer_and_sources:
  "createRagChain l \<lparr>store_index = Index name, store_embedding = emb\<rparr> prompt w
      = Some (Inr chain, w1) \<longrightarrow>
     search_k (chain_retriever chain) = 3 \<and> return_source_documents chain
     \<and> (\<exists>r w3. qa_chain_invoke chain question w2 = Some (r, w3))
     \<and> (\<forall>resp w3. qa_chain_invoke chain question w2 = Some (Inr resp, w3) \<longrightarrow>
          (\<exists>docs text.
             source_documents resp = Some docs
             \<and> docs = take 3 (nearest_first name question w2)
             \<and> length docs = min 3 (length (index_chunks name w2))
             \<and> set docs \<union> set (drop 3 (nearest_first name question w2))
                 = set (index_chunks name w2)
             \<and> (\<forall>d \<in> set docs. \<forall>d' \<in> set (drop 3 (nearest_first name question w2)).
                   score w2 question d' \<le> score w2 question d)
             \<and> format_prompt prompt
                   [(ascii ''context'', join_texts (map page_content docs)),
                    (ascii ''question'', question)] = Inr text
             \<and> result resp = llm_answer w2 text))
     \<and> (\<forall>text. (\<forall>i c. fault w2 i c = None)
            \<and> format_prompt prompt
                  [(ascii ''context'',
                    join_texts (map page_content (take 3 (nearest_first name question w2)))),
                   (ascii ''question'', question)] = Inr text \<longrightarrow>
          (\<exists>w3. qa_chain_invoke chain question w2 =
             Some (Inr \<lparr>result = llm_answer w2 text,
                        source_documents = Some (take 3 (nearest_first name question w2))\<rparr>,
                   w3)))"
proof (intro impI)
  assume built: "createRagChain l \<lparr>store_index = Index name, store_embedding = emb\<rparr> prompt w
      = Some (Inr chain, w1)"
  then have chain: "chain = rag_chain l name prompt"
    by (rule createRagChain_result)
  let ?ranked = "nearest_first name question w2"
  let ?docs = "take 3 ?ranked"
  let ?inputs = "[(ascii ''context'', join_texts (map page_content ?docs)),
                  (ascii ''question'', question)]"
  have settings: "search_k (chain_retriever chain) = 3 \<and> return_source_documents chain"
    by (simp add: chain rag_chain_def)
  have returns: "\<exists>r w3. qa_chain_invoke chain question w2 = Some (r, w3)"
    unfolding chain qa_chain_invoke_eq Let_def
    by (simp split: option.splits sum.splits)
  have len: "length ?docs = min 3 (length (index_chunks name w2))"
    by (simp add: length_nearest_first min.commute)
  have cover: "set ?docs \<union> set (drop 3 ?ranked) = set (index_chunks name w2)"
    using set_append [of ?docs "drop 3 ?ranked"] by (simp add: set_nearest_first)
  have top: "\<forall>d \<in> set ?docs. \<forall>d' \<in> set (drop 3 ?ranked).
      score w2 question d' \<le> score w2 question d"
    using nearest_first_top by blast
  have sources: "\<exists>docs text.
             source_documents resp = Some docs
             \<and> docs = ?docs
             \<and> length docs = min 3 (length (index_chunks name w2))
             \<and> set docs \<union> set (drop 3 ?ranked) = set (index_chunks name w2)
             \<and> (\<forall>d \<in> set docs. \<forall>d' \<in> set (drop 3 ?ranked).
                   score w2 question d' \<le> score w2 question d)
             \<and> format_prompt prompt
                   [(ascii ''context'', join_texts (map page_content docs)),
                    (ascii ''question'', question)] = Inr text
             \<and> result resp = llm_answer w2 text"
    if run: "qa_chain_invoke chain question w2 = Some (Inr resp, w3)" for resp w3
  proof -
    from run obtain filled where
      fmt: "format_prompt prompt ?inputs = Inr filled" and
      resp: "resp = \<lparr>result = llm_answer w2 filled, source_documents = Some ?docs\<rparr>"
      unfolding chain qa_chain_invoke_eq Let_def
      by (auto split: option.splits sum.splits)
    have "source_documents resp = Some ?docs" "result resp = llm_answer w2 filled"
      by (simp_all add: resp)
    with fmt len cover top show ?thesis by blast
  qed
  have success: "\<exists>w3. qa_chain_invoke chain question w2 =
             Some (Inr \<lparr>result = llm_answer w2 filled, source_documents = Some ?docs\<rparr>, w3)"
    if "(\<forall>i c. fault w2 i c = None) \<and> format_prompt prompt ?inputs = Inr filled" for filled
    using that unfolding chain qa_chain_invoke_eq Let_def by simp
  from settings returns sources success
  show "search_k (chain_retriever chain) = 3 \<and> return_source_documents chain
     \<and> (\<exists>r w3. qa_chain_invoke chain question w2 = Some (r, w3))
     \<and> (\<forall>resp w3. qa_chain_invoke chain question w2 = Some (Inr resp, w3) \<longrightarrow>
          (\<exists>docs text.
             source_documents resp = Some docs
             \<and> docs = ?docs
             \<and> length docs = min 3 (length (index_chunks name w2))
             \<and> set docs \<union> set (drop 3 ?ranked) = set (index_chunks name w2)
             \<and> (\<forall>d \<in> set docs. \<forall>d' \<in> set (drop 3 ?ranked).
                   score w2 question d' \<le> score w2 question d)
             \<and> format_prompt prompt
                   [(ascii ''context'', join_texts (map page_content docs)),
                    (ascii ''question'', question)] = Inr text
             \<and> result resp = llm_answer w2 text))
     \<and> (\<forall>text. (\<forall>i c. fault w2 i c = None) \<and> format_prompt prompt ?inputs = Inr text \<longrightarrow>
          (\<exists>w3. qa_chain_invoke chain question w2 =
             Some (Inr \<lparr>result = llm_answer w2 text, source_documents = Some ?docs\<rparr>, w3)))"
    by (intro conjI allI impI) blast+
qed

theorem rag_chain_answer_and_sources_witness:
  "\<exists>w1 w3. createRagChain demo_llm demo_store demo_prompt demo_world = Some (Inr demo_chain, w1)
     \<and> qa_chain_invoke demo_chain (ascii ''Which flavours?'') stocked_world =
         Some (Inr \<lparr>result = ascii ''Vanilla.'',
                    source_documents =
                      Some [page ''Vanilla and chocolate'', page ''Strawberry'', page ''Cones'']\<rparr>,
               w3)"
proof -
  have built: "createRagChain demo_llm
      \<lparr>store_index = Index (ascii ''icyco''), store_embedding = FastEmbedEmbeddings\<rparr>
      demo_prompt demo_world
      = Some (Inr demo_chain, logged ChainInit (logged (AsRetriever (ascii ''icyco'') 3) demo_world))"
    by (simp add: createRagChain_eq demo_world_fault demo_chain_def Let_def)
  let ?docs = "[page ''Vanilla and chocolate'', page ''Strawberry'', page ''Cones'']"
  let ?filled = "join_texts (map page_content ?docs) @ ascii '' '' @ ascii ''Which flavours?''"
  from rag_chain_answer_and_sources
    [of demo_llm "ascii ''icyco''" FastEmbedEmbeddings demo_prompt demo_world demo_chain
        "logged ChainInit (logged (AsRetriever (ascii ''icyco'') 3) demo_world)"
        "ascii ''Which flavours?''" stocked_world] built
  have "\<forall>filled. (\<forall>i c. fault stocked_world i c = None)
            \<and> format_prompt demo_prompt
                  [(ascii ''context'',
                    join_texts (map page_content
                      (take 3 (nearest_first (ascii ''icyco'') (ascii ''Which flavours?'') stocked_world)))),
                   (ascii ''question'', ascii ''Which flavours?'')] = Inr filled \<longrightarrow>
          (\<exists>w3. qa_chain_invoke demo_chain (ascii ''Which flavours?'') stocked_world =
             Some (Inr \<lparr>result = llm_answer stocked_world filled,
                        source_documents = Some (take 3
                          (nearest_first (ascii ''icyco'') (ascii ''Which flavours?'') stocked_world))\<rparr>,
                   w3))"
    by blast
  then have "(\<forall>i c. fault stocked_world i c = None)
            \<and> format_prompt demo_prompt
                  [(ascii ''context'', join_texts (map page_content ?docs)),
                   (ascii ''question'', ascii ''Which flavours?'')] = Inr ?filled \<longrightarrow>
          (\<exists>w3. qa_chain_invoke demo_chain (ascii ''Which flavours?'') stocked_world =
             Some (Inr \<lparr>result = ascii ''Vanilla.'', source_documents = Some ?docs\<rparr>, w3))"
    by (simp only: stocked_world_simps take_Suc_Cons take_0 numeral_3_eq_3) blast
  then have "\<exists>w3. qa_chain_invoke demo_chain (ascii ''Which flavours?'') stocked_world =
             Some (Inr \<lparr>result = ascii ''Vanilla.'', source_documents = Some ?docs\<rparr>, w3)"
    by (simp only: stocked_world_simps demo_prompt_filled simp_thms)
  with built show ?thesis
    unfolding demo_store_def by blast
qed

text \<open>
  The claim as it stands asks for exactly 3 chunks. On an index that holds one chunk the
  chain built by \<^verbatim>\<open>createRagChain\<close> answers with that one chunk as its sources.
\<close>

theorem rag_chain_one_chunk_index:
  "map_option fst
     (bind_io (createRagChain demo_llm demo_store demo_prompt)
        (\<lambda>chain. qa_chain_invoke chain (ascii ''Which flavours?'')) one_chunk_world)
   = Some (Inr \<lparr>result = ascii ''Vanilla.'',
                 source_documents = Some [page ''Icyco offers vanilla'']\<rparr>)"
proof -
  have built: "createRagChain demo_llm demo_store demo_prompt one_chunk_world
      = Some (Inr demo_chain,
              logged ChainInit (logged (AsRetriever (ascii ''icyco'') 3) one_chunk_world))"
    by (simp add: createRagChain_eq one_chunk_world_simps demo_chain_def demo_store_def Let_def)
  have asked: "map_option fst (qa_chain_invoke demo_chain (ascii ''Which flavours?'')
       (logged ChainInit (logged (AsRetriever (ascii ''icyco'') 3) one_chunk_world)))
     = Some (Inr \<lparr>result = ascii ''Vanilla.'',
                  source_documents = Some [page ''Icyco offers vanilla'']\<rparr>)"
    unfolding demo_chain_def qa_chain_invoke_eq Let_def
    by (simp add: one_chunk_world_simps demo_prompt_filled)
  show ?thesis
    by (simp add: bind_io_def built asked)
qed

end
